theory Spec2Isabelle
  imports Complex_Main
begin

section \<open>Python values\<close>

text \<open>
  A Python \<open>str\<close> is a sequence of Unicode code points, so it is modelled as a list of
  natural numbers (one per code point), not as a byte string: the title rules and the
  text clean-up of \<open>doc_ai_parser.py\<close> test single code points such as U+30AF or U+3000.
  \<open>py\<close> embeds an ASCII literal.  Python floats (normalized coordinates in the unit
  square) are modelled as real numbers: the properties below depend on comparisons of
  coordinates, not on rounding.
\<close>

type_synonym pystr = "nat list"

definition py :: "string \<Rightarrow> pystr" where
  "py s = map of_char s"

text \<open>\<open>s.replace(old, new)\<close> for a one-character \<open>old\<close>.\<close>

definition replace :: "nat \<Rightarrow> pystr \<Rightarrow> pystr \<Rightarrow> pystr" where
  "replace old new s = concat (map (\<lambda>c. if c = old then new else [c]) s)"

text \<open>\<open>sep.join(parts)\<close>.\<close>

fun join :: "pystr \<Rightarrow> pystr list \<Rightarrow> pystr" where
  "join sep [] = []"
| "join sep [p] = p"
| "join sep (p # q # ps) = p @ sep @ join sep (q # ps)"

text \<open>\<open>re.sub(r'[^0-9]', '', s)\<close>: only the ASCII digits U+0030..U+0039 are kept.\<close>

definition sub_non_digits :: "pystr \<Rightarrow> pystr" where
  "sub_non_digits s = filter (\<lambda>c. 48 \<le> c \<and> c \<le> 57) s"

text \<open>\<open>min(xs)\<close> and \<open>max(xs)\<close>; on an empty list Python raises ValueError (\<open>None\<close> here).\<close>

fun py_min :: "real list \<Rightarrow> real option" where
  "py_min [] = None"
| "py_min (x # xs) = Some (fold min xs x)"

fun py_max :: "real list \<Rightarrow> real option" where
  "py_max [] = None"
| "py_max (x # xs) = Some (fold max xs x)"

section \<open>config.py: the feature characters of the title rules\<close>

definition CREDIT_CHARS :: "nat list" where
  "CREDIT_CHARS = [12463, 12524, 12472, 12483, 12488]"

definition CASH_CHARS :: "nat list" where
  "CASH_CHARS = [29694, 37329]"

definition PAYMENT_CHARS :: "nat list" where
  "PAYMENT_CHARS = [25903, 25173]"

definition RECEIPT_CHARS :: "nat list" where
  "RECEIPT_CHARS = [21463, 20837]"

text \<open>The four canonical titles (\<open>KEYWORDS\<close>), as the literals of \<open>_normalize_title\<close>.\<close>

definition CREDIT_PAYMENT :: pystr where
  "CREDIT_PAYMENT = [12463, 12524, 12472, 12483, 12488, 25903, 25173]"

definition CREDIT_RECEIPT :: pystr where
  "CREDIT_RECEIPT = [12463, 12524, 12472, 12483, 12488, 21463, 20837]"

definition CASH_PAYMENT :: pystr where
  "CASH_PAYMENT = [29694, 37329, 25903, 25173]"

definition CASH_RECEIPT :: pystr where
  "CASH_RECEIPT = [29694, 37329, 21463, 20837]"

section \<open>doc\_ai\_parser.py\<close>

subsection \<open>Data\<close>

record ParsedEntity =
  text' :: pystr
  type' :: pystr
  center_y :: real
  center_x :: real
  x_min :: real
  x_max :: real
  height :: real

text \<open>
  The part of a Document AI entity that the parser reads.  A vertex coordinate may be
  absent (\<open>v.x is not None\<close> is tested by the source).
\<close>

datatype NormalizedVertex = NormalizedVertex (vx: "real option") (vy: "real option")

record BoundingPoly =
  normalized_vertices :: "NormalizedVertex list"

record PageRef =
  bounding_poly :: BoundingPoly

record PageAnchor =
  page_refs :: "PageRef list"

record Entity =
  entity_type :: pystr
  mention_text :: pystr
  page_anchor :: PageAnchor

record Document =
  entities :: "Entity list"

record LineItem =
  item :: pystr
  amount :: pystr

record ExtractedData =
  title :: "pystr option"
  shop_name :: "pystr option"
  date :: "pystr option"
  line_items :: "LineItem list"

subsection \<open>\_create\_parsed\_entity\<close>

text \<open>
  Every early \<open>return None\<close> is a branch; the \<open>except\<close> clause turns the ValueError of
  \<open>min\<close>/\<open>max\<close> on an empty list into \<open>None\<close> as well (unreachable after the guard on
  the coordinate lists).  There is no test on the height.
\<close>

definition create_parsed_entity :: "Entity \<Rightarrow> ParsedEntity option" where
  "create_parsed_entity entity =
     (case page_refs (page_anchor entity) of
        [] \<Rightarrow> None
      | ref # _ \<Rightarrow>
          (let vertices = normalized_vertices (bounding_poly ref) in
           if length vertices < 4 then None
           else
             (let x_coords = List.map_filter vx vertices;
                  y_coords = List.map_filter vy vertices
              in if x_coords = [] \<or> y_coords = [] then None
                 else
                   (case (py_min y_coords, py_max y_coords, py_min x_coords, py_max x_coords) of
                      (Some y_lo, Some y_hi, Some x_lo, Some x_hi) \<Rightarrow>
                        Some \<lparr> text' = replace 10 [] (mention_text entity),
                               type' = entity_type entity,
                               center_y = (y_lo + y_hi) / 2,
                               center_x = (x_lo + x_hi) / 2,
                               x_min = x_lo,
                               x_max = x_hi,
                               height = y_hi - y_lo \<rparr>
                    | _ \<Rightarrow> None))))"

subsection \<open>\_calculate\_dynamic\_tolerance\<close>

definition calculate_dynamic_tolerance :: "ParsedEntity list \<Rightarrow> real" where
  "calculate_dynamic_tolerance ents =
     (if ents = [] then 0.01
      else
        (let heights = sort (filter (\<lambda>h. h > 0.001) (map height ents)) in
         if heights = [] then 0.01
         else
           (let stable_start_index = length heights div 5;
                stable_end_index = length heights * 4 div 5;
                sliced = drop stable_start_index (take stable_end_index heights);
                stable_heights = (if sliced = [] then heights else sliced);
                avg_height = sum_list stable_heights / real (length stable_heights)
            in max (avg_height * 0.95) 0.008)))"

subsection \<open>\_group\_entities\_by\_row\<close>

text \<open>
  The loop over \<open>sorted_entities[1:]\<close>.  \<open>current_group\<close> is never empty (it starts as
  a singleton and is reset to a singleton), so it is carried as its first element, whose
  \<open>center_y\<close> is the fixed base of the group, and the elements appended after it.
  Python's \<open>sorted\<close> is stable, as \<open>sort_key\<close> is.
\<close>

fun group_loop ::
  "real \<Rightarrow> ParsedEntity \<Rightarrow> ParsedEntity list \<Rightarrow> ParsedEntity list list \<Rightarrow>
   ParsedEntity list \<Rightarrow> ParsedEntity list list" where
  "group_loop y_tolerance first appended groups [] = groups @ [first # appended]"
| "group_loop y_tolerance first appended groups (current_entity # rest) =
     (if \<bar>center_y current_entity - center_y first\<bar> < y_tolerance
      then group_loop y_tolerance first (appended @ [current_entity]) groups rest
      else group_loop y_tolerance current_entity [] (groups @ [first # appended]) rest)"

definition group_entities_by_row :: "ParsedEntity list \<Rightarrow> real \<Rightarrow> ParsedEntity list list" where
  "group_entities_by_row ents y_tolerance =
     (case sort_key center_y ents of
        [] \<Rightarrow> []
      | first # rest \<Rightarrow> group_loop y_tolerance first [] [] rest)"

subsection \<open>\_normalize\_title\<close>

text \<open>\<open>any(c in raw_title for c in chars)\<close>: \<open>c\<close> is one character, so \<open>in\<close> is membership.\<close>

definition has_any :: "nat list \<Rightarrow> pystr \<Rightarrow> bool" where
  "has_any chars raw_title = list_ex (\<lambda>c. c \<in> set raw_title) chars"

definition normalize_title :: "pystr \<Rightarrow> pystr" where
  "normalize_title raw_title =
     (if raw_title = [] then raw_title
      else
        (let has_credit = has_any CREDIT_CHARS raw_title;
             has_cash = has_any CASH_CHARS raw_title;
             has_payment = has_any PAYMENT_CHARS raw_title;
             has_receipt = has_any RECEIPT_CHARS raw_title
         in if has_credit \<and> \<not> has_cash then
              (if has_payment \<and> \<not> has_receipt then CREDIT_PAYMENT
               else if has_receipt \<and> \<not> has_payment then CREDIT_RECEIPT
               else raw_title)
            else if has_cash \<and> \<not> has_credit then
              (if has_payment \<and> \<not> has_receipt then CASH_PAYMENT
               else if has_receipt \<and> \<not> has_payment then CASH_RECEIPT
               else raw_title)
            else raw_title))"

subsection \<open>parse\_document\_entities\<close>

text \<open>The string literals of the function, as code points.\<close>

definition UNKNOWN_ITEM :: pystr where
  "UNKNOWN_ITEM = [38917, 30446, 19981, 26126]"

definition WARNING_RETAKE :: pystr where
  "WARNING_RETAKE =
     [12398, 20889, 30495, 12364, 20670, 12356, 12390, 12356, 12427, 12363, 12289, 25163,
      12406, 12428, 12391, 35501, 12415, 28431, 12428, 12364, 30330, 29983, 12375, 12414,
      12375, 12383, 12290, 12418, 12358, 19968, 24230, 25774, 24433, 12375, 12390, 12450,
      12483, 12503, 12525, 12540, 12489, 12377, 12427, 12363, 12289, 12486, 12524, 12510,
      12473, 12395, 12390, 25163, 20462, 27491, 12375, 12390, 12367, 12384, 12373, 12356,
      12290]"

definition WARNING_MANUAL :: pystr where
  "WARNING_MANUAL =
     [12398, 20889, 30495, 12364, 20670, 12356, 12390, 12356, 12427, 12363, 12289, 25163,
      12406, 12428, 12391, 35501, 12415, 28431, 12428, 12364, 30330, 29983, 12375, 12414,
      12375, 12383, 12290, 12486, 12524, 12510, 12473, 12395, 12390, 25163, 20462, 27491,
      12375, 12390, 12367, 12384, 12373, 12356, 12290]"

text \<open>\<open>.replace(' ', '').replace(U+3000, '').replace('@', '(a)')\<close>, as both strategies apply it.\<close>

definition clean_item_text :: "pystr \<Rightarrow> pystr" where
  "clean_item_text s = replace 64 (py ''(a)'') (replace 12288 [] (replace 32 [] s))"

text \<open>
  Step 1, the body of the loop over \<open>document.entities\<close>.  The state is
  \<open>(item_entities, amount_entities, extracted_data)\<close>.  \<open>entity.type_ in extracted_data\<close>
  holds for the four keys of the dict; the value under \<open>'line_items'\<close> is a list, never
  \<open>None\<close>, so only the three header fields can be filled, each once.
\<close>

definition preprocess_step ::
  "ParsedEntity list \<times> ParsedEntity list \<times> ExtractedData \<Rightarrow> Entity \<Rightarrow>
   ParsedEntity list \<times> ParsedEntity list \<times> ExtractedData" where
  "preprocess_step st entity =
     (case st of (item_entities, amount_entities, extracted_data) \<Rightarrow>
        if entity_type entity = py ''item'' \<or> entity_type entity = py ''amount'' then
          (case create_parsed_entity entity of
             None \<Rightarrow> st
           | Some parsed_entity \<Rightarrow>
               if entity_type entity = py ''item''
               then (item_entities @ [parsed_entity], amount_entities, extracted_data)
               else (item_entities, amount_entities @ [parsed_entity], extracted_data))
        else if entity_type entity = py ''title'' \<and> title extracted_data = None then
          (item_entities, amount_entities,
           extracted_data\<lparr>title := Some (normalize_title (replace 10 [] (mention_text entity)))\<rparr>)
        else if entity_type entity = py ''shop_name'' \<and> shop_name extracted_data = None then
          (item_entities, amount_entities,
           extracted_data\<lparr>shop_name := Some (replace 10 [] (mention_text entity))\<rparr>)
        else if entity_type entity = py ''date'' \<and> date extracted_data = None then
          (item_entities, amount_entities,
           extracted_data\<lparr>date := Some (replace 10 [] (mention_text entity))\<rparr>)
        else st)"

definition preprocess ::
  "Entity list \<Rightarrow> ParsedEntity list \<times> ParsedEntity list \<times> ExtractedData" where
  "preprocess es =
     foldl preprocess_step
       ([], [], \<lparr>title = None, shop_name = None, date = None, line_items = []\<rparr>) es"

text \<open>Strategy A: the loop \<open>for i in range(len(sorted_items))\<close>.\<close>

definition ordinal_pairing :: "ParsedEntity list \<Rightarrow> ParsedEntity list \<Rightarrow> LineItem list" where
  "ordinal_pairing item_entities amount_entities =
     (let sorted_items = sort_key center_y item_entities;
          sorted_amounts = sort_key center_y amount_entities
      in map (\<lambda>i. \<lparr>item = clean_item_text (text' (sorted_items ! i)),
                    amount = sub_non_digits (text' (sorted_amounts ! i))\<rparr>)
           [0 ..< length sorted_items])"

text \<open>
  Strategy B, one row: the cleaned item text, the amount text, and whether the x-overlap
  branch (which blanks the amount and raises the review flag) was taken.
\<close>

definition row_texts :: "ParsedEntity list \<Rightarrow> pystr \<times> pystr \<times> bool" where
  "row_texts row =
     (let row_items = sort_key center_x (filter (\<lambda>e. type' e = py ''item'') row);
          row_amounts = sort_key center_x (filter (\<lambda>e. type' e = py ''amount'') row);
          merged_item_text = join (py '' '') (map text' row_items);
          final_item_text = clean_item_text merged_item_text
      in if row_items \<noteq> [] \<and> row_amounts \<noteq> [] then
           (if x_max (last row_items) < x_min (hd row_amounts)
            then (final_item_text, sub_non_digits (join (py '' '') (map text' row_amounts)), False)
            else (final_item_text, [], True))
         else if row_amounts \<noteq> [] then
           (final_item_text, sub_non_digits (join (py '' '') (map text' row_amounts)), False)
         else (final_item_text, [], False))"

text \<open>The body of the loop over \<open>row_groups\<close>; the state is \<open>(line_items, is_review_needed)\<close>.\<close>

definition process_row ::
  "LineItem list \<times> bool \<Rightarrow> ParsedEntity list \<Rightarrow> LineItem list \<times> bool" where
  "process_row st row =
     (case st of (lines, is_review_needed) \<Rightarrow>
        (case row_texts row of (final_item_text, final_amount_text, overlap) \<Rightarrow>
           (let is_review_needed = (is_review_needed \<or> overlap) in
            if final_item_text \<noteq> [] \<and> final_amount_text \<noteq> [] then
              (lines @ [\<lparr>item = final_item_text, amount = final_amount_text\<rparr>], is_review_needed)
            else if final_item_text \<noteq> [] \<and> final_amount_text = [] then
              (lines @ [\<lparr>item = final_item_text, amount = py ''0''\<rparr>], True)
            else if final_item_text = [] \<and> final_amount_text \<noteq> [] then
              (lines @ [\<lparr>item = UNKNOWN_ITEM, amount = final_amount_text\<rparr>], True)
            else (lines, is_review_needed))))"

text \<open>Step 5: the result triple \<open>(extracted_data, is_review_needed, user_warning)\<close>.\<close>

definition assemble ::
  "ExtractedData \<Rightarrow> LineItem list \<Rightarrow> bool \<Rightarrow> ExtractedData \<times> bool \<times> pystr option" where
  "assemble extracted_data lines is_review_needed =
     (extracted_data\<lparr>line_items := lines\<rparr>, is_review_needed,
      if is_review_needed \<and> lines \<noteq> []
      then (if length lines \<ge> 3 then Some WARNING_RETAKE else Some WARNING_MANUAL)
      else None)"

definition parse_document_entities :: "Document \<Rightarrow> ExtractedData \<times> bool \<times> pystr option" where
  "parse_document_entities document =
     (case preprocess (entities document) of
        (item_entities, amount_entities, extracted_data) \<Rightarrow>
          if item_entities \<noteq> [] \<and> length item_entities = length amount_entities then
            assemble extracted_data (ordinal_pairing item_entities amount_entities) False
          else
            (let all_entities = item_entities @ amount_entities in
             if all_entities = [] then (extracted_data\<lparr>line_items := []\<rparr>, False, None)
             else
               (let y_tolerance = calculate_dynamic_tolerance all_entities;
                    row_groups = group_entities_by_row all_entities y_tolerance
                in case foldl process_row ([], False) row_groups of
                     (lines, is_review_needed) \<Rightarrow> assemble extracted_data lines is_review_needed)))"

section \<open>image\_processor.py\<close>

text \<open>The two codes of \<open>cv2\<close> that the module returns.\<close>

datatype rotate_code = ROTATE_90_CLOCKWISE | ROTATE_180

subsection \<open>Python's \<open>int * float\<close> and \<open>int > float\<close>\<close>

text \<open>
  \<open>horizontal_votes * 1.2\<close> multiplies an unbounded integer by a binary64 number.  Python
  first converts the integer to the nearest double, ties to even, and raises OverflowError
  when that is beyond the finite doubles; the product of the two doubles is rounded the
  same way and becomes infinite when it overflows; the comparison of an integer with a
  double is exact.  The literal \<open>1.2\<close> is the double \<open>5404319552844595 / 2^52\<close>.  A double
  that comes from an integer is an integer, so the operands are carried as integers: the
  exact product of \<open>a\<close> and \<open>1.2\<close> is \<open>a * 5404319552844595 / 2^52\<close>, and rounding to 53
  significant bits acts on the numerator.
\<close>

datatype py_exception = OverflowError | Raised string

datatype pyfloat = Finite real | PosInf | NegInf

definition DOUBLE_1_2 :: int where
  "DOUBLE_1_2 = 5404319552844595"

text \<open>The weight of the last of the 53 leading bits of \<open>m\<close>: 1 below \<open>2^53\<close>, a power of 2.\<close>

function ulp_scale :: "int \<Rightarrow> int" where
  "ulp_scale m = (if m < 2 ^ 53 then 1 else 2 * ulp_scale (m div 2))"
  by pat_completeness auto
termination
  by (relation "measure nat") auto

declare ulp_scale.simps [simp del]

text \<open>The multiple of \<open>g\<close> nearest to \<open>m\<close>; of two nearest ones, the even multiple.\<close>

definition round_half_even :: "int \<Rightarrow> int \<Rightarrow> int" where
  "round_half_even m g =
     (let q = m div g; r = m mod g
      in if 2 * r > g \<or> (2 * r = g \<and> odd q) then (q + 1) * g else q * g)"

definition round_to_53_bits :: "int \<Rightarrow> int" where
  "round_to_53_bits m = round_half_even m (ulp_scale m)"

text \<open>\<open>float(n)\<close> as the multiplication performs it; the finite doubles end below \<open>2^1024\<close>.\<close>

definition int_to_double :: "int \<Rightarrow> py_exception + int" where
  "int_to_double n =
     (let r = round_to_53_bits \<bar>n\<bar> in
      if r \<ge> 2 ^ 1024 then Inl OverflowError else Inr (sgn n * r))"

text \<open>\<open>a * 1.2\<close> for a double \<open>a\<close> that is an integer (\<open>2^1076 = 2^1024 * 2^52\<close>).\<close>

definition times_1_2 :: "int \<Rightarrow> pyfloat" where
  "times_1_2 a =
     (let r = round_to_53_bits (\<bar>a\<bar> * DOUBLE_1_2) in
      if r \<ge> 2 ^ 1076 then (if a > 0 then PosInf else NegInf)
      else Finite (real_of_int (sgn a * r) / 2 ^ 52))"

fun int_gt_float :: "int \<Rightarrow> pyfloat \<Rightarrow> bool" where
  "int_gt_float v (Finite x) = (real_of_int v > x)"
| "int_gt_float v PosInf = False"
| "int_gt_float v NegInf = True"

subsection \<open>DocAnalyzer.\_decide\_90\_rotation\<close>

text \<open>The product is evaluated before the second test of the \<open>or\<close>, so it can raise.\<close>

definition decide_90_rotation :: "int \<Rightarrow> int \<Rightarrow> py_exception + rotate_code option" where
  "decide_90_rotation horizontal_votes vertical_votes =
     (let total_votes = horizontal_votes + vertical_votes in
      if total_votes < 3 then Inr None
      else
        (case int_to_double horizontal_votes of
           Inl e \<Rightarrow> Inl e
         | Inr h \<Rightarrow>
             if int_gt_float vertical_votes (times_1_2 h)
                \<or> (horizontal_votes = 0 \<and> vertical_votes > 2)
             then Inr (Some ROTATE_90_CLOCKWISE)
             else Inr None))"

subsection \<open>process\_image\<close>

text \<open>
  The pixel operations are calls into OpenCV, NumPy and Pillow, which are not part of the
  repository: each one is a parameter that either raises (\<open>Inl\<close>, an exception derived
  from \<open>Exception\<close>) or returns (\<open>Inr\<close>).  \<open>'img\<close> is the array type; an exception
  of a library is \<open>Raised\<close> with the name of its class.
  \<open>load_image\<close> stands for \<open>Image.open\<close>, \<open>exif_transpose\<close> and \<open>cvtColor\<close>;
  \<open>orientation_votes\<close> for the preprocessing and the contour vote of the 90 degree stage.
  The logging calls have no part in the result and are left out.
\<close>

type_synonym bytes = "nat list"

record 'img imaging =
  load_image :: "bytes \<Rightarrow> py_exception + 'img"
  to_gray :: "'img \<Rightarrow> py_exception + 'img"
  get_paper_mask :: "'img \<Rightarrow> py_exception + 'img"
  orientation_votes :: "'img \<Rightarrow> 'img \<Rightarrow> py_exception + int \<times> int"
  rotate_image :: "'img \<Rightarrow> rotate_code \<Rightarrow> py_exception + 'img"
  analyze_upside_down_180 :: "'img \<Rightarrow> 'img \<Rightarrow> py_exception + rotate_code option"
  remove_shadows :: "'img \<Rightarrow> py_exception + 'img"
  imencode :: "'img \<Rightarrow> py_exception + bool \<times> bytes"

text \<open>Sequencing inside the \<open>try\<close> block: the first exception ends the block.\<close>

definition and_then :: "'e + 'a \<Rightarrow> ('a \<Rightarrow> 'e + 'b) \<Rightarrow> 'e + 'b" where
  "and_then r f = (case r of Inl e \<Rightarrow> Inl e | Inr a \<Rightarrow> f a)"

text \<open>
  \<open>DocAnalyzer.analyze_orientation_90\<close>: preprocessing and contour voting are library
  calls (\<open>orientation_votes\<close>), the decision is \<open>_decide_90_rotation\<close>.
\<close>

definition analyze_orientation_90 ::
  "'img imaging \<Rightarrow> 'img \<Rightarrow> 'img \<Rightarrow> py_exception + rotate_code option" where
  "analyze_orientation_90 cv gray_img paper_mask =
     and_then (orientation_votes cv gray_img paper_mask)
       (\<lambda>(horizontal_votes, vertical_votes).
          decide_90_rotation horizontal_votes vertical_votes)"

text \<open>Stage 1 of the \<open>try\<close> block: the three arrays after the optional 90 degree turn.\<close>

definition stage_90 ::
  "'img imaging \<Rightarrow> 'img \<Rightarrow> 'img \<Rightarrow> 'img \<Rightarrow> rotate_code option \<Rightarrow>
   py_exception + 'img \<times> 'img \<times> 'img" where
  "stage_90 cv current_color current_gray paper_mask rotate_cmd =
     (case rotate_cmd of
        None \<Rightarrow> Inr (current_color, current_gray, paper_mask)
      | Some c \<Rightarrow>
          and_then (rotate_image cv current_color c) (\<lambda>color'.
          and_then (rotate_image cv current_gray c) (\<lambda>gray'.
          and_then (rotate_image cv paper_mask c) (\<lambda>paper_mask'.
          Inr (color', gray', paper_mask')))))"

definition stage_180 ::
  "'img imaging \<Rightarrow> 'img \<Rightarrow> rotate_code option \<Rightarrow> py_exception + 'img" where
  "stage_180 cv current_color rotate_cmd_180 =
     (case rotate_cmd_180 of
        None \<Rightarrow> Inr current_color
      | Some c \<Rightarrow> rotate_image cv current_color c)"

text \<open>The body of the \<open>try\<close> block up to \<open>cv2.imencode\<close>: \<open>(success, buffer)\<close> or an exception.\<close>

definition try_block :: "'img imaging \<Rightarrow> bytes \<Rightarrow> py_exception + bool \<times> bytes" where
  "try_block cv image_bytes =
     and_then (load_image cv image_bytes) (\<lambda>current_color.
     and_then (to_gray cv current_color) (\<lambda>current_gray.
     and_then (get_paper_mask cv current_gray) (\<lambda>paper_mask.
     and_then (analyze_orientation_90 cv current_gray paper_mask) (\<lambda>rotate_cmd.
     and_then (stage_90 cv current_color current_gray paper_mask rotate_cmd)
       (\<lambda>(current_color, current_gray, paper_mask).
     and_then (analyze_upside_down_180 cv current_gray paper_mask) (\<lambda>rotate_cmd_180.
     and_then (stage_180 cv current_color rotate_cmd_180) (\<lambda>current_color.
     and_then (to_gray cv current_color) (\<lambda>final_gray.
     and_then (remove_shadows cv final_gray) (\<lambda>final_output.
     imencode cv final_output)))))))))"

definition process_image :: "'img imaging \<Rightarrow> bytes \<Rightarrow> bytes" where
  "process_image cv image_bytes =
     (case try_block cv image_bytes of
        Inl e \<Rightarrow> image_bytes
      | Inr (success, buffer) \<Rightarrow> if \<not> success then image_bytes else buffer)"

section \<open>Example inputs\<close>

text \<open>A fragment whose polygon is the axis-parallel rectangle with the given corners.\<close>

definition vertex :: "real \<Rightarrow> real \<Rightarrow> NormalizedVertex" where
  "vertex a b = NormalizedVertex (Some a) (Some b)"

definition box_entity :: "string \<Rightarrow> pystr \<Rightarrow> real \<Rightarrow> real \<Rightarrow> real \<Rightarrow> real \<Rightarrow> Entity" where
  "box_entity kind s x_lo x_hi y_lo y_hi =
     \<lparr> entity_type = py kind, mention_text = s,
       page_anchor = \<lparr> page_refs = [\<lparr> bounding_poly = \<lparr> normalized_vertices =
         [vertex x_lo y_lo, vertex x_hi y_lo, vertex x_hi y_hi, vertex x_lo y_hi] \<rparr> \<rparr>] \<rparr> \<rparr>"

text \<open>A degenerate polygon: all four vertices on the line \<open>y = 0.5\<close>.\<close>

definition flat_entity :: Entity where
  "flat_entity = box_entity ''item'' (py ''A'') 0.1 0.4 0.5 0.5"

definition flat_box :: ParsedEntity where
  "flat_box = \<lparr>text' = py ''A'', type' = py ''item'', center_y = 0.5, center_x = 0.25,
               x_min = 0.1, x_max = 0.4, height = 0\<rparr>"

definition item_A :: ParsedEntity where
  "item_A = \<lparr>text' = py ''A'', type' = py ''item'', center_y = 0.21, center_x = 0.35,
             x_min = 0.1, x_max = 0.6, height = 0.02\<rparr>"

definition item_B :: ParsedEntity where
  "item_B = \<lparr>text' = py ''B'', type' = py ''item'', center_y = 0.51, center_x = 0.2,
             x_min = 0.1, x_max = 0.3, height = 0.02\<rparr>"

definition amount_100 :: ParsedEntity where
  "amount_100 = \<lparr>text' = py ''100'', type' = py ''amount'', center_y = 0.21, center_x = 0.7,
             x_min = 0.5, x_max = 0.9, height = 0.02\<rparr>"

text \<open>An amount fragment that reads as a lone yen sign (U+00A5): no digit.\<close>

definition amount_yen :: ParsedEntity where
  "amount_yen = \<lparr>text' = [165], type' = py ''amount'', center_y = 0.51, center_x = 0.7,
             x_min = 0.5, x_max = 0.9, height = 0.02\<rparr>"

definition no_header :: ExtractedData where
  "no_header = \<lparr>title = None, shop_name = None, date = None, line_items = []\<rparr>"

text \<open>One item and one amount on the same line, the item reaching into the amount.\<close>

definition doc_overlap :: Document where
  "doc_overlap = \<lparr> entities =
     [box_entity ''item'' (py ''A'') 0.1 0.6 0.2 0.22,
      box_entity ''amount'' (py ''100'') 0.5 0.9 0.2 0.22] \<rparr>"

text \<open>The degenerate item and an ordinary amount.\<close>

definition doc_flat :: Document where
  "doc_flat = \<lparr> entities =
     [flat_entity, box_entity ''amount'' (py ''100'') 0.5 0.9 0.2 0.22] \<rparr>"

text \<open>Two items and two amounts on two lines; the second amount has no digit.\<close>

definition doc_pairs :: Document where
  "doc_pairs = \<lparr> entities =
     [box_entity ''item'' (py ''A'') 0.1 0.6 0.2 0.22,
      box_entity ''item'' (py ''B'') 0.1 0.3 0.5 0.52,
      box_entity ''amount'' (py ''100'') 0.5 0.9 0.2 0.22,
      box_entity ''amount'' [165] 0.5 0.9 0.5 0.52] \<rparr>"

text \<open>Two items and one amount: the counts differ.\<close>

definition doc_mismatch :: Document where
  "doc_mismatch = \<lparr> entities =
     [box_entity ''item'' (py ''A'') 0.1 0.6 0.2 0.22,
      box_entity ''amount'' (py ''100'') 0.5 0.9 0.2 0.22,
      box_entity ''item'' (py ''B'') 0.1 0.3 0.5 0.52] \<rparr>"

text \<open>A title without geometry, and an item whose polygon has three vertices only.\<close>

definition doc_header_only :: Document where
  "doc_header_only = \<lparr> entities =
     [\<lparr> entity_type = py ''title'', mention_text = CASH_PAYMENT,
        page_anchor = \<lparr> page_refs = [] \<rparr> \<rparr>,
      \<lparr> entity_type = py ''item'', mention_text = py ''A'',
        page_anchor = \<lparr> page_refs = [\<lparr> bounding_poly = \<lparr> normalized_vertices =
          [vertex 0.1 0.2, vertex 0.6 0.2, vertex 0.6 0.22] \<rparr> \<rparr>] \<rparr> \<rparr>] \<rparr>"

text \<open>The title of the specification's scenario: a cash book page headed credit/payment.\<close>

definition title_scenario :: pystr where
  "title_scenario =
     [20986, 32013, 34920, 40, 12463, 12524, 12472, 12483, 12488, 25903, 25173, 41]"

text \<open>A title that names both payment modes (U+73FE, U+30AF, U+652F).\<close>

definition title_both_modes :: pystr where
  "title_both_modes = [29694, 12463, 25903]"

text \<open>
  Imaging libraries for the examples: arrays are byte lists, every operation is the
  identity, no rotation is found; then one operation is made to fail.
\<close>

definition cv_plain :: "bytes imaging" where
  "cv_plain =
     \<lparr> load_image = (\<lambda>b. Inr b),
       to_gray = (\<lambda>i. Inr i),
       get_paper_mask = (\<lambda>i. Inr i),
       orientation_votes = (\<lambda>g m. Inr (0, 0)),
       rotate_image = (\<lambda>i c. Inr i),
       analyze_upside_down_180 = (\<lambda>g m. Inr None),
       remove_shadows = (\<lambda>i. Inr i),
       imencode = (\<lambda>i. Inr (True, i)) \<rparr>"

definition cv_shadow_fails :: "bytes imaging" where
  "cv_shadow_fails = cv_plain\<lparr>remove_shadows := (\<lambda>i. Inl (Raised ''cv2.error''))\<rparr>"

definition cv_encode_fails :: "bytes imaging" where
  "cv_encode_fails = cv_plain\<lparr>imencode := (\<lambda>i. Inr (False, []))\<rparr>"

section \<open>Title normalization\<close>

lemmas title_chars = CREDIT_CHARS_def CASH_CHARS_def PAYMENT_CHARS_def RECEIPT_CHARS_def

lemmas title_keywords = CREDIT_PAYMENT_def CREDIT_RECEIPT_def CASH_PAYMENT_def CASH_RECEIPT_def

lemma normalize_title_range:
  "normalize_title x = x \<or> normalize_title x = CREDIT_PAYMENT
   \<or> normalize_title x = CREDIT_RECEIPT \<or> normalize_title x = CASH_PAYMENT
   \<or> normalize_title x = CASH_RECEIPT"
  by (simp add: normalize_title_def Let_def)

lemma normalize_title_canonical:
  "normalize_title CREDIT_PAYMENT = CREDIT_PAYMENT"
  "normalize_title CREDIT_RECEIPT = CREDIT_RECEIPT"
  "normalize_title CASH_PAYMENT = CASH_PAYMENT"
  "normalize_title CASH_RECEIPT = CASH_RECEIPT"
  by (simp_all add: normalize_title_def has_any_def title_chars title_keywords)

lemma normalize_title_scenario: "normalize_title title_scenario = CREDIT_PAYMENT"
  by (simp add: normalize_title_def has_any_def title_chars title_scenario_def)

text \<open>
  Claim C6.  Title normalization is idempotent: normalizing an already normalized title
  changes nothing, for every string.  The result of one pass is the input itself or one
  of the four canonical titles, and each canonical title is a fixed point.
\<close>

theorem normalize_title_idempotent:
  "normalize_title (normalize_title x) = normalize_title x"
  using normalize_title_range [of x] by (auto simp: normalize_title_canonical)

theorem normalize_title_idempotent_witness:
  "normalize_title (normalize_title title_scenario) = CREDIT_PAYMENT"
  using normalize_title_idempotent [of title_scenario] by (simp add: normalize_title_scenario)

text \<open>
  Claim C7.  A raw title that contains at least one credit-indicator character and at
  least one cash-indicator character is returned unchanged: the payment-mode axis is
  ambiguous, so neither branch of the rule applies.
\<close>

theorem normalize_title_ambiguous_mode:
  assumes "\<exists>c \<in> set CREDIT_CHARS. c \<in> set raw_title"
      and "\<exists>c \<in> set CASH_CHARS. c \<in> set raw_title"
  shows "normalize_title raw_title = raw_title"
  using assms by (auto simp: normalize_title_def has_any_def list_ex_iff Let_def)

theorem normalize_title_ambiguous_mode_witness:
  "(\<exists>c \<in> set CREDIT_CHARS. c \<in> set title_both_modes)
   \<and> (\<exists>c \<in> set CASH_CHARS. c \<in> set title_both_modes)
   \<and> normalize_title title_both_modes = title_both_modes"
proof -
  have c1: "\<exists>c \<in> set CREDIT_CHARS. c \<in> set title_both_modes"
    by (simp add: title_chars title_both_modes_def)
  have c2: "\<exists>c \<in> set CASH_CHARS. c \<in> set title_both_modes"
    by (simp add: title_chars title_both_modes_def)
  from c1 c2 normalize_title_ambiguous_mode [OF c1 c2] show ?thesis by blast
qed

section \<open>Fragment geometry\<close>

lemma py_min_Min: "xs \<noteq> [] \<Longrightarrow> py_min xs = Some (Min (set xs))"
  by (cases xs) (simp_all add: Min.set_eq_fold [symmetric])

lemma py_max_Max: "xs \<noteq> [] \<Longrightarrow> py_max xs = Some (Max (set xs))"
  by (cases xs) (simp_all add: Max.set_eq_fold [symmetric])

lemma Max_minus_Min_zero:
  fixes ys :: "real list"
  assumes "ys \<noteq> []"
  shows "Max (set ys) - Min (set ys) = 0 \<longleftrightarrow> (\<forall>a \<in> set ys. \<forall>b \<in> set ys. a = b)"
proof
  assume e: "Max (set ys) - Min (set ys) = 0"
  show "\<forall>a \<in> set ys. \<forall>b \<in> set ys. a = b"
  proof (intro ballI)
    fix a b assume "a \<in> set ys" "b \<in> set ys"
    then have "Min (set ys) \<le> a" "a \<le> Max (set ys)" "Min (set ys) \<le> b" "b \<le> Max (set ys)"
      by simp_all
    then show "a = b" using e by linarith
  qed
next
  assume all: "\<forall>a \<in> set ys. \<forall>b \<in> set ys. a = b"
  have "Max (set ys) \<in> set ys" "Min (set ys) \<in> set ys" using assms by simp_all
  then show "Max (set ys) - Min (set ys) = 0" using all by simp
qed

text \<open>The box of an entity that passes the guards, in terms of its coordinate lists.\<close>

lemma create_parsed_entity_Some:
  assumes "page_refs (page_anchor entity) = ref # rest"
      and "xs = List.map_filter vx (normalized_vertices (bounding_poly ref))"
      and "ys = List.map_filter vy (normalized_vertices (bounding_poly ref))"
      and "\<not> length (normalized_vertices (bounding_poly ref)) < 4" and "xs \<noteq> []" and "ys \<noteq> []"
  shows "create_parsed_entity entity =
           Some \<lparr> text' = replace 10 [] (mention_text entity), type' = entity_type entity,
                  center_y = (Min (set ys) + Max (set ys)) / 2,
                  center_x = (Min (set xs) + Max (set xs)) / 2,
                  x_min = Min (set xs), x_max = Max (set xs),
                  height = Max (set ys) - Min (set ys) \<rparr>"
  using assms
  by (simp add: create_parsed_entity_def Let_def py_min_Min py_max_Max)

lemma create_parsed_entity_None:
  "create_parsed_entity entity = None \<longleftrightarrow>
      (case page_refs (page_anchor entity) of
         [] \<Rightarrow> True
       | ref # _ \<Rightarrow>
           length (normalized_vertices (bounding_poly ref)) < 4
           \<or> List.map_filter vx (normalized_vertices (bounding_poly ref)) = []
           \<or> List.map_filter vy (normalized_vertices (bounding_poly ref)) = [])"
proof (cases "page_refs (page_anchor entity)")
  case Nil
  then show ?thesis by (simp add: create_parsed_entity_def)
next
  case (Cons ref rest)
  show ?thesis
  proof (cases "length (normalized_vertices (bounding_poly ref)) < 4
           \<or> List.map_filter vx (normalized_vertices (bounding_poly ref)) = []
           \<or> List.map_filter vy (normalized_vertices (bounding_poly ref)) = []")
    case True
    then show ?thesis using Cons by (auto simp: create_parsed_entity_def Let_def)
  next
    case False
    then show ?thesis using Cons create_parsed_entity_Some [OF Cons refl refl] by simp
  qed
qed

lemma create_parsed_entity_flat: "create_parsed_entity flat_entity = Some flat_box"
  by (simp add: create_parsed_entity_def flat_entity_def flat_box_def box_entity_def vertex_def
      Let_def replace_def py_def)

lemma create_parsed_entity_item_A:
  "create_parsed_entity (box_entity ''item'' (py ''A'') 0.1 0.6 0.2 0.22) = Some item_A"
  by (simp add: create_parsed_entity_def box_entity_def vertex_def Let_def replace_def py_def
      item_A_def)

text \<open>Step 1 of the parser keeps every box that the derivation returns, by kind.\<close>

lemma py_item_neq_amount: "py ''item'' \<noteq> py ''amount''"
  by (simp add: py_def)

lemma foldl_preprocess_step_entities:
  "fst (foldl preprocess_step (its, ams, ed) es)
     = its @ List.map_filter create_parsed_entity (filter (\<lambda>e. entity_type e = py ''item'') es)
   \<and> fst (snd (foldl preprocess_step (its, ams, ed) es))
     = ams @ List.map_filter create_parsed_entity (filter (\<lambda>e. entity_type e = py ''amount'') es)"
proof (induction es arbitrary: its ams ed)
  case Nil
  then show ?case by simp
next
  case (Cons e es)
  obtain its' ams' ed' where st: "preprocess_step (its, ams, ed) e = (its', ams', ed')"
    by (cases "preprocess_step (its, ams, ed) e") auto
  have "its' = its @ List.map_filter create_parsed_entity
                       (filter (\<lambda>e. entity_type e = py ''item'') [e])"
    and "ams' = ams @ List.map_filter create_parsed_entity
                       (filter (\<lambda>e. entity_type e = py ''amount'') [e])"
    using st py_item_neq_amount
    by (auto simp: preprocess_step_def split: option.splits if_splits)
  then show ?case
    using Cons.IH [of its' ams' ed'] st py_item_neq_amount
    by (auto split: option.splits)
qed

lemma preprocess_entities:
  assumes "preprocess es = (its, ams, ed)"
  shows "its = List.map_filter create_parsed_entity (filter (\<lambda>e. entity_type e = py ''item'') es)"
    and "ams = List.map_filter create_parsed_entity (filter (\<lambda>e. entity_type e = py ''amount'') es)"
  using assms foldl_preprocess_step_entities
    [of "[]" "[]" "\<lparr>title = None, shop_name = None, date = None, line_items = []\<rparr>" es]
  by (simp_all add: preprocess_def)

lemma preprocess_doc_flat:
  "preprocess (entities doc_flat) = ([flat_box], [amount_100], no_header)"
  by (simp add: doc_flat_def flat_entity_def flat_box_def amount_100_def no_header_def
      box_entity_def vertex_def py_def preprocess_def preprocess_step_def
      create_parsed_entity_def replace_def Let_def)

text \<open>
  Claim C2, as amended.  The geometry derivation never fails otherwise than by returning
  nothing, and it returns nothing exactly when the entity has no page reference, or its
  first polygon has fewer than four vertices, or no \<open>x\<close> or no \<open>y\<close> coordinate.  Every
  fragment box that it produces has height \<open>y_max - y_min\<close> over the \<open>y\<close> coordinates of
  that polygon, which is at least 0, and is 0 exactly when the vertices share one \<open>y\<close>.
  The height plays no part in the decision: step 1 of the parser collects every box
  that the derivation returns, by kind, so a fragment of height 0 is kept and counted.
\<close>

theorem create_parsed_entity_height:
  "(create_parsed_entity entity = None \<longleftrightarrow>
      (case page_refs (page_anchor entity) of
         [] \<Rightarrow> True
       | ref # _ \<Rightarrow>
           length (normalized_vertices (bounding_poly ref)) < 4
           \<or> List.map_filter vx (normalized_vertices (bounding_poly ref)) = []
           \<or> List.map_filter vy (normalized_vertices (bounding_poly ref)) = []))
   \<and> (create_parsed_entity entity = Some p
        \<longrightarrow> page_refs (page_anchor entity) = ref # rest
        \<longrightarrow> ys = List.map_filter vy (normalized_vertices (bounding_poly ref))
        \<longrightarrow> height p = Max (set ys) - Min (set ys)
            \<and> 0 \<le> height p
            \<and> (height p = 0 \<longleftrightarrow> (\<forall>a \<in> set ys. \<forall>b \<in> set ys. a = b))
            \<and> center_y p = (Min (set ys) + Max (set ys)) / 2)
   \<and> (preprocess es = (item_entities, amount_entities, extracted_data)
        \<longrightarrow> item_entities = List.map_filter create_parsed_entity
                               (filter (\<lambda>e. entity_type e = py ''item'') es)
            \<and> amount_entities = List.map_filter create_parsed_entity
                               (filter (\<lambda>e. entity_type e = py ''amount'') es))"
proof (intro conjI impI)
  show "create_parsed_entity entity = None \<longleftrightarrow>
      (case page_refs (page_anchor entity) of
         [] \<Rightarrow> True
       | ref # _ \<Rightarrow>
           length (normalized_vertices (bounding_poly ref)) < 4
           \<or> List.map_filter vx (normalized_vertices (bounding_poly ref)) = []
           \<or> List.map_filter vy (normalized_vertices (bounding_poly ref)) = [])"
    by (rule create_parsed_entity_None)
next
  assume some: "create_parsed_entity entity = Some p"
    and refs: "page_refs (page_anchor entity) = ref # rest"
    and ys: "ys = List.map_filter vy (normalized_vertices (bounding_poly ref))"
  have ok: "\<not> length (normalized_vertices (bounding_poly ref)) < 4"
       "List.map_filter vx (normalized_vertices (bounding_poly ref)) \<noteq> []" "ys \<noteq> []"
    using some refs create_parsed_entity_None [of entity] by (auto simp: ys)
  have p: "p = \<lparr> text' = replace 10 [] (mention_text entity), type' = entity_type entity,
                  center_y = (Min (set ys) + Max (set ys)) / 2,
                  center_x = (Min (set (List.map_filter vx (normalized_vertices (bounding_poly ref))))
                     + Max (set (List.map_filter vx (normalized_vertices (bounding_poly ref))))) / 2,
                  x_min = Min (set (List.map_filter vx (normalized_vertices (bounding_poly ref)))),
                  x_max = Max (set (List.map_filter vx (normalized_vertices (bounding_poly ref)))),
                  height = Max (set ys) - Min (set ys) \<rparr>"
    using create_parsed_entity_Some [OF refs refl ys ok] some by simp
  show h: "height p = Max (set ys) - Min (set ys)" by (simp add: p)
  have "Min (set ys) \<le> Max (set ys)" using ok(3) by simp
  then show "0 \<le> height p" by (simp add: h)
  show "height p = 0 \<longleftrightarrow> (\<forall>a \<in> set ys. \<forall>b \<in> set ys. a = b)"
    unfolding h by (rule Max_minus_Min_zero [OF ok(3)])
  show "center_y p = (Min (set ys) + Max (set ys)) / 2" by (simp add: p)
next
  assume pre: "preprocess es = (item_entities, amount_entities, extracted_data)"
  show "item_entities = List.map_filter create_parsed_entity
                               (filter (\<lambda>e. entity_type e = py ''item'') es)"
    by (rule preprocess_entities(1) [OF pre])
  show "amount_entities = List.map_filter create_parsed_entity
                               (filter (\<lambda>e. entity_type e = py ''amount'') es)"
    by (rule preprocess_entities(2) [OF pre])
qed

text \<open>
  The degenerate polygon gives a box of height 0, which step 1 keeps as the one item of
  its document; an ordinary polygon from \<open>y = 0.2\<close> to \<open>y = 0.22\<close> gives height 0.02.
\<close>

theorem create_parsed_entity_height_witness:
  "create_parsed_entity flat_entity = Some flat_box
   \<and> height flat_box = 0
   \<and> create_parsed_entity (box_entity ''item'' (py ''A'') 0.1 0.6 0.2 0.22) = Some item_A
   \<and> height item_A = Max (set [0.2, 0.2, 0.22, 0.22]) - Min (set [0.2, 0.2, 0.22, 0.22])
   \<and> height item_A = 0.02
   \<and> preprocess (entities doc_flat) = ([flat_box], [amount_100], no_header)
   \<and> List.map_filter create_parsed_entity
        (filter (\<lambda>e. entity_type e = py ''item'') (entities doc_flat)) = [flat_box]"
proof -
  let ?flat_ref = "\<lparr> bounding_poly = \<lparr> normalized_vertices =
         [vertex 0.1 0.5, vertex 0.4 0.5, vertex 0.4 0.5, vertex 0.1 0.5] \<rparr> \<rparr>"
  let ?ref_A = "\<lparr> bounding_poly = \<lparr> normalized_vertices =
         [vertex 0.1 0.2, vertex 0.6 0.2, vertex 0.6 0.22, vertex 0.1 0.22] \<rparr> \<rparr>"
  have r1: "page_refs (page_anchor flat_entity) = ?flat_ref # []"
    by (simp add: flat_entity_def box_entity_def)
  have y1: "[0.5, 0.5, 0.5, 0.5]
              = List.map_filter vy (normalized_vertices (bounding_poly ?flat_ref))"
    by (simp add: vertex_def)
  have same: "\<forall>a \<in> set [0.5, 0.5, 0.5, 0.5::real]. \<forall>b \<in> set [0.5, 0.5, 0.5, 0.5]. a = b"
    by simp
  note flat = create_parsed_entity_height
    [of flat_entity flat_box ?flat_ref "[]" "[0.5, 0.5, 0.5, 0.5]" "entities doc_flat"
        "[flat_box]" "[amount_100]" no_header]
  from flat create_parsed_entity_flat r1 y1 same have h0: "height flat_box = 0"
    by blast
  from flat preprocess_doc_flat
  have cnt: "[flat_box] = List.map_filter create_parsed_entity
        (filter (\<lambda>e. entity_type e = py ''item'') (entities doc_flat))"
    by blast
  have r2: "page_refs (page_anchor (box_entity ''item'' (py ''A'') 0.1 0.6 0.2 0.22))
              = ?ref_A # []"
    by (simp add: box_entity_def)
  have y2: "[0.2, 0.2, 0.22, 0.22]
              = List.map_filter vy (normalized_vertices (bounding_poly ?ref_A))"
    by (simp add: vertex_def)
  from create_parsed_entity_height
    [of "box_entity ''item'' (py ''A'') 0.1 0.6 0.2 0.22" item_A ?ref_A "[]"
        "[0.2, 0.2, 0.22, 0.22]"] create_parsed_entity_item_A r2 y2
  have hA: "height item_A = Max (set [0.2, 0.2, 0.22, 0.22]) - Min (set [0.2, 0.2, 0.22, 0.22])"
    by blast
  have v: "height item_A = 0.02" by (simp add: item_A_def)
  show ?thesis
    by (intro conjI create_parsed_entity_flat h0 create_parsed_entity_item_A hA v
        preprocess_doc_flat cnt [symmetric])
qed

text \<open>
  Claim C2 as stated fails: the degenerate polygon yields a fragment box, and its height
  is 0, not greater than 0.
\<close>

theorem create_parsed_entity_zero_height:
  "map_option height (create_parsed_entity flat_entity) = Some 0"
  by (simp add: create_parsed_entity_flat flat_box_def)

section \<open>Orientation\<close>

subsection \<open>Rounding to 53 bits\<close>

lemma ulp_scale_small: "m < 2 ^ 53 \<Longrightarrow> ulp_scale m = 1"
  by (simp add: ulp_scale.simps)

lemma ulp_scale_pos: "0 < ulp_scale m"
  by (induction m rule: ulp_scale.induct) (subst ulp_scale.simps, simp)

lemma ulp_scale_lower: "2 ^ 53 \<le> m \<Longrightarrow> 2 ^ 52 * ulp_scale m \<le> m"
proof (induction m rule: ulp_scale.induct)
  case (1 m)
  show ?case
  proof (cases "m div 2 < 2 ^ 53")
    case True
    then have "ulp_scale m = 2" using "1.prems"
      by (subst ulp_scale.simps) (simp add: ulp_scale_small)
    then show ?thesis using "1.prems" by simp
  next
    case False
    then have "2 ^ 52 * ulp_scale (m div 2) \<le> m div 2" using "1.IH" "1.prems" by simp
    moreover have "ulp_scale m = 2 * ulp_scale (m div 2)" using "1.prems"
      by (subst ulp_scale.simps) simp
    ultimately show ?thesis by simp
  qed
qed

lemma ulp_scale_upper: "m < 2 ^ 53 * ulp_scale m"
proof (induction m rule: ulp_scale.induct)
  case (1 m)
  show ?case
  proof (cases "m < 2 ^ 53")
    case True
    then show ?thesis by (simp add: ulp_scale_small)
  next
    case False
    then have "m div 2 < 2 ^ 53 * ulp_scale (m div 2)" using "1.IH" by simp
    moreover have "ulp_scale m = 2 * ulp_scale (m div 2)" using False
      by (subst ulp_scale.simps) simp
    ultimately show ?thesis by simp
  qed
qed

lemma ulp_scale_dvd: "m < 2 ^ 53 * 2 ^ n \<Longrightarrow> ulp_scale m dvd 2 ^ n"
proof (induction n arbitrary: m)
  case 0
  then show ?case by (simp add: ulp_scale_small)
next
  case (Suc n)
  show ?case
  proof (cases "m < 2 ^ 53")
    case True
    then show ?thesis by (simp add: ulp_scale_small)
  next
    case False
    have "m div 2 < 2 ^ 53 * 2 ^ n" using Suc.prems by simp
    then have "ulp_scale (m div 2) dvd 2 ^ n" by (rule Suc.IH)
    moreover have "ulp_scale m = 2 * ulp_scale (m div 2)" using False
      by (subst ulp_scale.simps) simp
    ultimately show ?thesis by simp
  qed
qed

lemma ulp_scale_power_of_two: "ulp_scale m dvd 2 ^ n \<or> 2 ^ n dvd ulp_scale m"
proof (induction m arbitrary: n rule: ulp_scale.induct)
  case (1 m)
  show ?case
  proof (cases "m < 2 ^ 53")
    case True
    then show ?thesis by (simp add: ulp_scale_small)
  next
    case False
    then have G: "ulp_scale m = 2 * ulp_scale (m div 2)" by (subst ulp_scale.simps) simp
    show ?thesis
    proof (cases n)
      case 0
      then show ?thesis by simp
    next
      case (Suc k)
      from "1.IH" [OF False, of k] show ?thesis by (auto simp: G Suc)
    qed
  qed
qed

lemma round_half_even_one: "round_half_even m 1 = m"
  by (simp add: round_half_even_def)

lemma round_half_even_dvd: "g dvd round_half_even m g"
  by (simp add: round_half_even_def Let_def)

lemma round_half_even_near:
  assumes "0 < g"
  shows "2 * round_half_even m g \<le> 2 * m + g" and "2 * m - g \<le> 2 * round_half_even m g"
proof -
  define q where "q = m div g"
  define r where "r = m mod g"
  have m: "m = q * g + r" by (simp add: q_def r_def)
  have r: "0 \<le> r" "r < g" using assms by (simp_all add: r_def)
  have "(round_half_even m g = q * g + g \<and> g \<le> 2 * r)
        \<or> (round_half_even m g = q * g \<and> 2 * r \<le> g)"
    by (auto simp: round_half_even_def Let_def q_def r_def algebra_simps)
  then show "2 * round_half_even m g \<le> 2 * m + g" and "2 * m - g \<le> 2 * round_half_even m g"
    using r m by auto
qed

lemma round_to_53_bits_small: "m < 2 ^ 53 \<Longrightarrow> round_to_53_bits m = m"
  by (simp add: round_to_53_bits_def ulp_scale_small round_half_even_one)

lemma multiple_ge:
  fixes g x y :: int
  assumes "0 < g" and "g dvd x" and "g dvd y" and "y - g < x"
  shows "y \<le> x"
proof -
  from assms(2,3) obtain a b where x: "x = g * a" and y: "y = g * b" by (auto simp: dvd_def)
  have "g * (b - 1) < g * a" using assms(4) by (simp add: x y algebra_simps)
  then have "b - 1 < a" using assms(1) by (simp add: mult_less_cancel_left_pos)
  then have "b \<le> a" by simp
  then show ?thesis using assms(1) by (simp add: x y)
qed

subsection \<open>The product with 1.2 below \<open>2^52\<close>\<close>

text \<open>
  \<open>5 * 5404319552844595 = 6 * 2^52 - 1\<close>: the double is a little less than 1.2.  As long
  as the product stays below \<open>2^52\<close>, that is up to 3752999689475413 horizontal votes,
  the doubles are at most 1/2 apart and the rounded product lies between the integer
  part of the exact \<open>6 * h / 5\<close> and the next integer.
\<close>

lemma product_1_2_between:
  assumes h0: "0 \<le> h" and hb: "h \<le> 3752999689475413"
  defines "R \<equiv> round_to_53_bits (h * DOUBLE_1_2)"
  defines "N \<equiv> (6 * h) div 5"
  shows "N * 2 ^ 52 \<le> R" and "R < (N + 1) * 2 ^ 52"
proof -
  define P where "P = h * DOUBLE_1_2"
  define G where "G = ulp_scale P"
  have P: "P = h * 5404319552844595" by (simp add: P_def DOUBLE_1_2_def)
  have N: "5 * N \<le> 6 * h" "6 * h < 5 * N + 5" by (simp_all add: N_def)
  have R: "R = round_half_even P G" by (simp add: R_def round_to_53_bits_def P_def G_def)
  have "N * 2 ^ 52 \<le> R \<and> R < (N + 1) * 2 ^ 52"
  proof (cases "P < 2 ^ 53")
    case True
    then have "R = P" by (simp add: R_def P_def round_to_53_bits_small)
    moreover have "h \<le> 1" using True P h0 by simp
    ultimately show ?thesis using N P h0 by auto
  next
    case False
    have Gpos: "0 < G" by (simp add: G_def ulp_scale_pos)
    have lo: "2 ^ 52 * G \<le> P" using False ulp_scale_lower [of P] by (simp add: G_def)
    have up: "P < 2 ^ 53 * G" using ulp_scale_upper [of P] by (simp add: G_def)
    have "P < 2 ^ 53 * 2 ^ 51" using P hb by simp
    then have d51: "G dvd 2 ^ 51" unfolding G_def by (rule ulp_scale_dvd)
    then have G51: "G \<le> 2 ^ 51" by (simp add: zdvd_imp_le)
    have "(2::int) ^ 51 dvd 2 ^ 52" by (simp add: le_imp_power_dvd)
    then have dND: "G dvd N * 2 ^ 52" using d51 by (meson dvd_mult dvd_trans)
    have dR: "G dvd R" by (simp add: R round_half_even_dvd)
    have near: "2 * R \<le> 2 * P + G" "2 * P - G \<le> 2 * R"
      using round_half_even_near [OF Gpos, of P] by (simp_all add: R)
    have "N * 2 ^ 52 - G < R" using near(2) N P up h0 by simp
    then have lower: "N * 2 ^ 52 \<le> R" by (rule multiple_ge [OF Gpos dR dND])
    have upper: "R < (N + 1) * 2 ^ 52" using near(1) N P lo G51 h0 by simp
    show ?thesis using lower upper by simp
  qed
  then show "N * 2 ^ 52 \<le> R" and "R < (N + 1) * 2 ^ 52" by simp_all
qed

lemma int_gt_product_1_2:
  assumes h0: "0 \<le> h" and hb: "h \<le> 3752999689475413"
  shows "v * 2 ^ 52 > round_to_53_bits (h * DOUBLE_1_2) \<longleftrightarrow> 5 * v > 6 * h"
proof -
  define N where "N = (6 * h) div 5"
  have N: "5 * N \<le> 6 * h" "6 * h < 5 * N + 5" by (simp_all add: N_def)
  have b: "N * 2 ^ 52 \<le> round_to_53_bits (h * DOUBLE_1_2)"
          "round_to_53_bits (h * DOUBLE_1_2) < (N + 1) * 2 ^ 52"
    using product_1_2_between [OF h0 hb] by (simp_all add: N_def)
  show ?thesis
  proof
    assume "v * 2 ^ 52 > round_to_53_bits (h * DOUBLE_1_2)"
    then have "N * 2 ^ 52 < v * 2 ^ 52" using b(1) by simp
    then have "N < v" by simp
    then show "5 * v > 6 * h" using N by simp
  next
    assume "5 * v > 6 * h"
    then have "N + 1 \<le> v" using N by simp
    then have "(N + 1) * 2 ^ 52 \<le> v * 2 ^ 52" by simp
    then show "v * 2 ^ 52 > round_to_53_bits (h * DOUBLE_1_2)" using b(2) by simp
  qed
qed

lemma int_to_double_exact:
  assumes "0 \<le> h" and "h < 2 ^ 53"
  shows "int_to_double h = Inr h"
proof -
  have "round_to_53_bits \<bar>h\<bar> = h" using assms by (simp add: round_to_53_bits_small)
  moreover have "h < 2 ^ 1024"
    using assms(2) power_strict_increasing [of 53 1024 "2::int"] by simp
  moreover have "sgn h * h = h" using assms(1) by (simp add: sgn_if)
  ultimately show ?thesis by (simp add: int_to_double_def Let_def)
qed

lemma times_1_2_finite:
  assumes h0: "0 \<le> h" and hb: "h \<le> 3752999689475413"
  shows "times_1_2 h = Finite (real_of_int (round_to_53_bits (h * DOUBLE_1_2)) / 2 ^ 52)"
proof -
  define R where "R = round_to_53_bits (h * DOUBLE_1_2)"
  have b: "((6 * h) div 5) * 2 ^ 52 \<le> R" "R < ((6 * h) div 5 + 1) * 2 ^ 52"
    using product_1_2_between [OF h0 hb] by (simp_all add: R_def)
  have "(6 * h) div 5 + 1 \<le> 2 ^ 53" using hb by simp
  then have "((6 * h) div 5 + 1) * 2 ^ 52 \<le> 2 ^ 53 * (2 ^ 52 :: int)"
    by (rule mult_right_mono) simp
  also have "\<dots> < 2 ^ 1076"
    using power_strict_increasing [of 105 1076 "2::int"] by (simp flip: power_add)
  finally have fin: "R < 2 ^ 1076" using b(2) by simp
  have zero: "h = 0 \<Longrightarrow> R = 0" by (simp add: R_def round_to_53_bits_small)
  have "sgn h * R = R" using h0 zero by (cases "h = 0") (simp_all add: sgn_if)
  then show ?thesis using fin h0 by (simp add: times_1_2_def Let_def R_def [symmetric])
qed

lemma decide_90_rotation_in_range:
  assumes h0: "0 \<le> h" and hb: "h \<le> 3752999689475413"
  shows "decide_90_rotation h v =
           Inr (if h + v < 3 then None
                else if 5 * v > 6 * h \<or> (h = 0 \<and> v > 2) then Some ROTATE_90_CLOCKWISE
                else None)"
proof -
  have e: "int_to_double h = Inr h" using h0 hb by (simp add: int_to_double_exact)
  have "int_gt_float v (times_1_2 h)
          \<longleftrightarrow> real_of_int (round_to_53_bits (h * DOUBLE_1_2)) / 2 ^ 52 < real_of_int v"
    by (simp add: times_1_2_finite [OF h0 hb])
  also have "\<dots> \<longleftrightarrow> real_of_int (round_to_53_bits (h * DOUBLE_1_2)) < real_of_int (v * 2 ^ 52)"
    by (simp add: pos_divide_less_eq)
  also have "\<dots> \<longleftrightarrow> round_to_53_bits (h * DOUBLE_1_2) < v * 2 ^ 52"
    by (rule of_int_less_iff)
  also have "\<dots> \<longleftrightarrow> 5 * v > 6 * h" by (rule int_gt_product_1_2 [OF h0 hb])
  finally have g: "int_gt_float v (times_1_2 h) \<longleftrightarrow> 5 * v > 6 * h" .
  show ?thesis by (simp add: decide_90_rotation_def Let_def e g)
qed

text \<open>Over the integers the threshold \<open>1.2\<close> reads \<open>5 * vertical > 6 * horizontal\<close>.\<close>

lemma rotation_threshold_integers:
  "real_of_int v > real_of_int h * 1.2 \<longleftrightarrow> 5 * v > 6 * h"
proof -
  have "real_of_int v > real_of_int h * 1.2 \<longleftrightarrow> real_of_int (5 * v) > real_of_int (6 * h)"
    by (simp add: algebra_simps)
  also have "\<dots> \<longleftrightarrow> 5 * v > 6 * h" by (rule of_int_less_iff)
  finally show ?thesis .
qed

subsection \<open>Beyond the doubles\<close>

lemma round_to_53_bits_large:
  assumes "2 ^ 1024 \<le> m"
  shows "2 ^ 1024 \<le> round_to_53_bits m"
proof -
  define G where "G = ulp_scale m"
  define R where "R = round_half_even m G"
  have big: "(2::int) ^ 53 \<le> 2 ^ 1024" by (rule power_increasing) simp_all
  have Gpos: "0 < G" by (simp add: G_def ulp_scale_pos)
  have lo: "2 ^ 52 * G \<le> m" unfolding G_def using assms big by (intro ulp_scale_lower) simp
  have dR: "G dvd R" by (simp add: R_def round_half_even_dvd)
  have near: "2 * m - G \<le> 2 * R" using round_half_even_near [OF Gpos, of m] by (simp add: R_def)
  have "(1::int) \<le> 2 ^ 52" by simp
  then have "G \<le> 2 ^ 52 * G" using Gpos by simp
  then have Gm: "G \<le> m" using lo by simp
  consider "G dvd 2 ^ 1024" | "2 ^ 1024 dvd G"
    using ulp_scale_power_of_two [of m 1024] by (auto simp: G_def)
  then have "2 ^ 1024 \<le> R"
  proof cases
    case 1
    have "2 ^ 1024 - G < R" using near assms Gpos by linarith
    then show ?thesis by (rule multiple_ge [OF Gpos dR 1])
  next
    case 2
    then have "2 ^ 1024 \<le> G" using Gpos by (simp add: zdvd_imp_le)
    moreover have "0 < R" using near Gm Gpos by linarith
    then have "G \<le> R" using dR by (simp add: zdvd_imp_le)
    ultimately show ?thesis by simp
  qed
  then show ?thesis by (simp add: R_def G_def round_to_53_bits_def)
qed

text \<open>From \<open>2^1024\<close> horizontal votes on, the conversion to a double raises.\<close>

lemma decide_90_rotation_overflow:
  assumes "2 ^ 1024 \<le> h" and "\<not> h + v < 3"
  shows "decide_90_rotation h v = Inl OverflowError"
proof -
  have "(0::int) < 2 ^ 1024" by simp
  then have "\<bar>h\<bar> = h" using assms(1) by linarith
  then have "2 ^ 1024 \<le> round_to_53_bits \<bar>h\<bar>"
    using round_to_53_bits_large [OF assms(1)] by simp
  then show ?thesis using assms(2) by (simp add: decide_90_rotation_def int_to_double_def Let_def)
qed

lemma decide_90_rotation_overflow_example:
  "decide_90_rotation (10 ^ 400) 0 = Inl OverflowError"
  by (rule decide_90_rotation_overflow) simp_all

lemma ulp_scale_numeral:
  "ulp_scale (numeral k) =
     (if (numeral k :: int) < 2 ^ 53 then 1 else 2 * ulp_scale (numeral k div 2))"
  by (rule ulp_scale.simps)

subsection \<open>The decision\<close>

text \<open>
  Claim C9, as amended.  For vote counts that are natural numbers, with at most
  3752999689475413 horizontal votes (so that the double product stays below \<open>2^52\<close>), the
  90 degree decision returns without raising; it keeps the orientation (returns nothing)
  whenever the two counts add up to less than 3; otherwise it returns the clockwise
  quarter turn if and only if the vertical votes exceed 1.2 times the horizontal votes,
  taken exactly, or there is no horizontal vote and more than 2 vertical votes, and it
  returns nothing in every other case.  In whole numbers: it turns the page exactly when
  there are at least 3 votes and five times the vertical votes exceed six times the
  horizontal ones.
\<close>

theorem decide_90_rotation_rule:
  assumes "0 \<le> horizontal_votes" and "horizontal_votes \<le> 3752999689475413"
      and "0 \<le> vertical_votes"
  shows "(horizontal_votes + vertical_votes < 3 \<longrightarrow>
            decide_90_rotation horizontal_votes vertical_votes = Inr None) \<and>
         (\<not> horizontal_votes + vertical_votes < 3 \<longrightarrow>
            (decide_90_rotation horizontal_votes vertical_votes = Inr (Some ROTATE_90_CLOCKWISE)
               \<longleftrightarrow> real_of_int vertical_votes > real_of_int horizontal_votes * 1.2
                    \<or> (horizontal_votes = 0 \<and> vertical_votes > 2)) \<and>
            (decide_90_rotation horizontal_votes vertical_votes = Inr None
               \<longleftrightarrow> \<not> (real_of_int vertical_votes > real_of_int horizontal_votes * 1.2
                       \<or> (horizontal_votes = 0 \<and> vertical_votes > 2)))) \<and>
         (decide_90_rotation horizontal_votes vertical_votes = Inr (Some ROTATE_90_CLOCKWISE)
            \<longleftrightarrow> \<not> horizontal_votes + vertical_votes < 3
                 \<and> 5 * vertical_votes > 6 * horizontal_votes)"
proof -
  have second: "horizontal_votes = 0 \<and> vertical_votes > 2
      \<longrightarrow> 5 * vertical_votes > 6 * horizontal_votes"
    by auto
  show ?thesis
    unfolding decide_90_rotation_in_range [OF assms(1,2)]
      rotation_threshold_integers [of vertical_votes horizontal_votes]
    using second by auto
qed

text \<open>
  One horizontal and five vertical votes turn the page; two votes in all do not; at the
  largest admitted count, \<open>2^52\<close> vertical votes still turn it.
\<close>

theorem decide_90_rotation_rule_witness:
  "(0::int) \<le> 1 \<and> (1::int) \<le> 3752999689475413 \<and> (0::int) \<le> 5 \<and> \<not> (1::int) + 5 < 3
   \<and> real_of_int 5 > real_of_int 1 * 1.2
   \<and> decide_90_rotation 1 5 = Inr (Some ROTATE_90_CLOCKWISE)
   \<and> (0::int) \<le> 2 \<and> (0::int) \<le> 0 \<and> (2::int) + 0 < 3
   \<and> decide_90_rotation 2 0 = Inr None
   \<and> (5::int) * 4503599627370496 > 6 * 3752999689475413
   \<and> decide_90_rotation 3752999689475413 4503599627370496 = Inr (Some ROTATE_90_CLOCKWISE)"
  using decide_90_rotation_rule [of 1 5] decide_90_rotation_rule [of 2 0]
    decide_90_rotation_rule [of 3752999689475413 4503599627370496]
  by simp

text \<open>
  Claim C9 as stated fails one vote further: with 3752999689475414 horizontal and
  4503599627370497 vertical votes the vertical votes exceed 1.2 times the horizontal
  ones (by 0.2), but the double product is rounded up to 4503599627370497 and the page is
  not turned.
\<close>

theorem decide_90_rotation_rounded_product:
  "decide_90_rotation 3752999689475414 4503599627370497 = Inr None
   \<and> \<not> (3752999689475414::int) + 4503599627370497 < 3
   \<and> real_of_int 4503599627370497 > real_of_int 3752999689475414 * 1.2"
  by (simp add: decide_90_rotation_def int_to_double_def times_1_2_def round_to_53_bits_def
      round_half_even_def DOUBLE_1_2_def Let_def ulp_scale_numeral)

section \<open>Image normalization\<close>

lemma try_block_shadow_fails: "try_block cv_shadow_fails [255, 216] = Inl (Raised ''cv2.error'')"
  by (simp add: try_block_def and_then_def analyze_orientation_90_def stage_90_def stage_180_def
      decide_90_rotation_def cv_shadow_fails_def cv_plain_def)

lemma try_block_encode_fails: "try_block cv_encode_fails [255, 216] = Inr (False, [])"
  by (simp add: try_block_def and_then_def analyze_orientation_90_def stage_90_def stage_180_def
      decide_90_rotation_def cv_encode_fails_def cv_plain_def)

text \<open>
  Claim C5.  For every input byte string and whatever the imaging operations do: if an
  exception is raised anywhere inside the normalization (the protected block ends in an
  exception), or the JPEG encoder reports failure, \<open>process_image\<close> returns the input
  bytes unchanged.  Its result is always a byte string: either the input, or the encoded
  buffer of a run in which nothing failed.
\<close>

theorem process_image_fallback:
  "(try_block cv image_bytes = Inl e \<longrightarrow> process_image cv image_bytes = image_bytes) \<and>
   (try_block cv image_bytes = Inr (False, buffer) \<longrightarrow>
      process_image cv image_bytes = image_bytes) \<and>
   (process_image cv image_bytes = image_bytes \<or>
      (\<exists>encoded. try_block cv image_bytes = Inr (True, encoded)
                 \<and> process_image cv image_bytes = encoded))"
  by (auto simp: process_image_def split: sum.splits)

text \<open>Shadow removal raising, and the encoder reporting failure, on the bytes \<open>FF D8\<close>.\<close>

theorem process_image_fallback_witness:
  "try_block cv_shadow_fails [255, 216] = Inl (Raised ''cv2.error'')
   \<and> process_image cv_shadow_fails [255, 216] = [255, 216]
   \<and> try_block cv_encode_fails [255, 216] = Inr (False, [])
   \<and> process_image cv_encode_fails [255, 216] = [255, 216]"
  using process_image_fallback [of cv_shadow_fails "[255, 216]" "Raised ''cv2.error''" "[]"]
    process_image_fallback [of cv_encode_fails "[255, 216]" "Raised ''cv2.error''" "[]"]
    try_block_shadow_fails try_block_encode_fails
  by simp

section \<open>Layout reconciliation\<close>

subsection \<open>The two strategies\<close>

lemma ordinal_pairing_length [simp]:
  "length (ordinal_pairing its ams) = length its"
  by (simp add: ordinal_pairing_def Let_def)

lemma ordinal_pairing_nth:
  "i < length its \<Longrightarrow>
   ordinal_pairing its ams ! i =
     \<lparr>item = clean_item_text (text' (sort_key center_y its ! i)),
      amount = sub_non_digits (text' (sort_key center_y ams ! i))\<rparr>"
  by (simp add: ordinal_pairing_def Let_def)

lemma ordinal_pairing_map2:
  assumes "length its = length ams"
  shows "ordinal_pairing its ams =
     map2 (\<lambda>i a. \<lparr>item = clean_item_text (text' i), amount = sub_non_digits (text' a)\<rparr>)
       (sort_key center_y its) (sort_key center_y ams)"
  using assms by (intro nth_equalityI) (simp_all add: ordinal_pairing_nth)

lemma parse_strategy_A:
  assumes "preprocess (entities document) = (its, ams, ed)"
      and "its \<noteq> []" and "length its = length ams"
  shows "parse_document_entities document
           = (ed\<lparr>line_items := ordinal_pairing its ams\<rparr>, False, None)"
  using assms by (simp add: parse_document_entities_def assemble_def)

text \<open>A row adds its line to the list and can only raise the flag.\<close>

lemma process_row_acc:
  "process_row (ls, rv) row =
     (ls @ fst (process_row ([], False) row), rv \<or> snd (process_row ([], False) row))"
  by (simp add: process_row_def Let_def split: prod.splits)

lemma foldl_process_row:
  "foldl process_row (ls, rv) rows =
     (ls @ concat (map (\<lambda>r. fst (process_row ([], False) r)) rows),
      rv \<or> (\<exists>r \<in> set rows. snd (process_row ([], False) r)))"
proof (induction rows arbitrary: ls rv)
  case Nil
  then show ?case by simp
next
  case (Cons r rows)
  have "process_row (ls, rv) r =
      (ls @ fst (process_row ([], False) r), rv \<or> snd (process_row ([], False) r))"
    by (rule process_row_acc)
  then show ?case by (simp add: Cons.IH)
qed

lemma parse_strategy_B:
  assumes "preprocess (entities document) = (its, ams, ed)"
      and "\<not> (its \<noteq> [] \<and> length its = length ams)"
      and "its @ ams \<noteq> []"
  shows "parse_document_entities document =
     assemble ed
       (concat (map (\<lambda>r. fst (process_row ([], False) r))
          (group_entities_by_row (its @ ams) (calculate_dynamic_tolerance (its @ ams)))))
       (\<exists>r \<in> set (group_entities_by_row (its @ ams) (calculate_dynamic_tolerance (its @ ams))).
           snd (process_row ([], False) r))"
  using assms
  by (auto simp: parse_document_entities_def Let_def foldl_process_row)

lemma sub_non_digits_empty:
  "sub_non_digits s = [] \<longleftrightarrow> (\<forall>c \<in> set s. \<not> (48 \<le> c \<and> c \<le> 57))"
  by (simp add: sub_non_digits_def filter_empty_conv)

lemma process_row_item_only:
  assumes "row_texts row = (it, [], ov)" and "it \<noteq> []"
  shows "process_row (ls, rv) row = (ls @ [\<lparr>item = it, amount = py ''0''\<rparr>], True)"
  using assms by (simp add: process_row_def)

lemma strategy_B_item_only:
  assumes pre: "preprocess (entities document) = (its, ams, ed)"
      and B: "\<not> (its \<noteq> [] \<and> length its = length ams)"
      and row: "row \<in> set (group_entities_by_row (its @ ams)
                             (calculate_dynamic_tolerance (its @ ams)))"
      and rt: "row_texts row = (it, [], ov)" and it: "it \<noteq> []"
  shows "\<lparr>item = it, amount = py ''0''\<rparr>
           \<in> set (line_items (fst (parse_document_entities document)))
         \<and> fst (snd (parse_document_entities document))"
proof -
  have ne: "its @ ams \<noteq> []"
  proof
    assume "its @ ams = []"
    then have "group_entities_by_row (its @ ams) (calculate_dynamic_tolerance (its @ ams)) = []"
      by (simp add: group_entities_by_row_def)
    with row show False by simp
  qed
  have r: "process_row ([], False) row = ([\<lparr>item = it, amount = py ''0''\<rparr>], True)"
    using process_row_item_only [OF rt it, of "[]" False] by simp
  show ?thesis
    unfolding parse_strategy_B [OF pre B ne] assemble_def
    using row r by (auto intro!: bexI [of _ row])
qed

lemma distinct_map_sort_key:
  "distinct (map f (sort_key f xs)) = distinct (map f xs)"
  by (simp add: distinct_map)

lemma strictly_sorted_sort_key:
  "distinct (map f xs) \<Longrightarrow> sorted_wrt (<) (map f (sort_key f xs))"
  by (simp add: strict_sorted_iff distinct_map_sort_key del: distinct_map)

lemma sort_key_strictly_sorted_id:
  "sorted_wrt (<) (map f xs) \<Longrightarrow> sort_key f xs = xs"
  by (simp add: strict_sorted_iff sort_key_id_if_sorted)

subsection \<open>The example documents\<close>

lemmas example_defs = item_A_def item_B_def amount_100_def amount_yen_def no_header_def
  doc_overlap_def doc_pairs_def doc_mismatch_def doc_header_only_def box_entity_def
  vertex_def py_def

lemmas preprocess_defs = preprocess_def preprocess_step_def create_parsed_entity_def
  replace_def Let_def

lemma preprocess_doc_overlap:
  "preprocess (entities doc_overlap) = ([item_A], [amount_100], no_header)"
  by (simp add: example_defs preprocess_defs)

lemma preprocess_doc_pairs:
  "preprocess (entities doc_pairs) = ([item_A, item_B], [amount_100, amount_yen], no_header)"
  by (simp add: example_defs preprocess_defs)

lemma preprocess_doc_mismatch:
  "preprocess (entities doc_mismatch) = ([item_A, item_B], [amount_100], no_header)"
  by (simp add: example_defs preprocess_defs)

lemma preprocess_doc_header_only:
  "preprocess (entities doc_header_only) = ([], [], no_header\<lparr>title := Some CASH_PAYMENT\<rparr>)"
  by (simp add: example_defs preprocess_defs normalize_title_def has_any_def
      title_chars CASH_PAYMENT_def)

lemma rows_doc_mismatch:
  "group_entities_by_row ([item_A, item_B] @ [amount_100])
     (calculate_dynamic_tolerance ([item_A, item_B] @ [amount_100]))
   = [[item_A, amount_100], [item_B]]"
  by (simp add: group_entities_by_row_def calculate_dynamic_tolerance_def Let_def
      item_A_def item_B_def amount_100_def)

lemma row_A_100:
  "sort_key center_x (filter (\<lambda>e. type' e = py ''item'') [item_A, amount_100]) = [item_A]"
  "sort_key center_x (filter (\<lambda>e. type' e = py ''amount'') [item_A, amount_100]) = [amount_100]"
  by (simp_all add: item_A_def amount_100_def py_def)

lemma example_texts:
  "clean_item_text (text' item_A) = py ''A''"
  "clean_item_text (text' item_B) = py ''B''"
  "sub_non_digits (text' amount_100) = py ''100''"
  "sub_non_digits (text' amount_yen) = []"
  by (simp_all add: item_A_def item_B_def amount_100_def amount_yen_def clean_item_text_def
      sub_non_digits_def replace_def py_def)

lemma example_sorted:
  "sort_key center_y [item_A, item_B] = [item_A, item_B]"
  "sort_key center_y [amount_100, amount_yen] = [amount_100, amount_yen]"
  by (simp_all add: item_A_def item_B_def amount_100_def amount_yen_def)

subsection \<open>Nothing to reconcile\<close>

text \<open>
  Claim C8.  When step 1 finds no usable item fragment and no usable amount fragment,
  the result is the collected header data with an empty list of line items, the review
  flag is false and there is no user warning.
\<close>

theorem parse_nothing_to_reconcile:
  assumes "preprocess (entities document) = ([], [], extracted_data)"
  shows "parse_document_entities document = (extracted_data\<lparr>line_items := []\<rparr>, False, None)"
  using assms by (simp add: parse_document_entities_def)

text \<open>A title and an item with an unusable polygon: the title is kept, no line, no review.\<close>

theorem parse_nothing_to_reconcile_witness:
  "preprocess (entities doc_header_only) = ([], [], no_header\<lparr>title := Some CASH_PAYMENT\<rparr>)
   \<and> parse_document_entities doc_header_only
       = (\<lparr>title = Some CASH_PAYMENT, shop_name = None, date = None, line_items = []\<rparr>,
          False, None)"
  using parse_nothing_to_reconcile [OF preprocess_doc_header_only] preprocess_doc_header_only
  by (simp add: no_header_def)

subsection \<open>Ordinal pairing\<close>

text \<open>
  Claim C3.  Given \<open>N\<close> item fragments and \<open>N\<close> amount fragments, \<open>N\<close> at least 1, each kind
  at pairwise distinct \<open>center_y\<close>, the result is produced by ordinal pairing: exactly \<open>N\<close>
  line items, the i-th one made of the i-th item and the i-th amount in ascending
  \<open>center_y\<close> (both sorted lists are strictly increasing rearrangements of the inputs, and
  are the inputs themselves when these already come in strictly increasing order), the
  review flag false and no warning.
\<close>

theorem ordinal_pairing_vertical_order:
  assumes "preprocess (entities document) = (item_entities, amount_entities, extracted_data)"
      and "length item_entities = N" and "length amount_entities = N" and "1 \<le> N"
      and "distinct (map center_y item_entities)" and "distinct (map center_y amount_entities)"
  shows "parse_document_entities document =
           (extracted_data\<lparr>line_items :=
              map2 (\<lambda>i a. \<lparr>item = clean_item_text (text' i), amount = sub_non_digits (text' a)\<rparr>)
                (sort_key center_y item_entities) (sort_key center_y amount_entities)\<rparr>,
            False, None)
         \<and> length (line_items (fst (parse_document_entities document))) = N
         \<and> sorted_wrt (<) (map center_y (sort_key center_y item_entities))
         \<and> set (sort_key center_y item_entities) = set item_entities
         \<and> sorted_wrt (<) (map center_y (sort_key center_y amount_entities))
         \<and> set (sort_key center_y amount_entities) = set amount_entities
         \<and> (sorted_wrt (<) (map center_y item_entities)
              \<longrightarrow> sort_key center_y item_entities = item_entities)
         \<and> (sorted_wrt (<) (map center_y amount_entities)
              \<longrightarrow> sort_key center_y amount_entities = amount_entities)"
proof -
  have ne: "item_entities \<noteq> []" and len: "length item_entities = length amount_entities"
    using assms(2-4) by auto
  have res: "parse_document_entities document =
           (extracted_data\<lparr>line_items :=
              map2 (\<lambda>i a. \<lparr>item = clean_item_text (text' i), amount = sub_non_digits (text' a)\<rparr>)
                (sort_key center_y item_entities) (sort_key center_y amount_entities)\<rparr>,
            False, None)"
    using parse_strategy_A [OF assms(1) ne len] ordinal_pairing_map2 [OF len] by simp
  have n: "length (line_items (fst (parse_document_entities document))) = N"
    by (simp add: res assms(2,3))
  show ?thesis
    using res n strictly_sorted_sort_key [OF assms(5)] strictly_sorted_sort_key [OF assms(6)]
      sort_key_strictly_sorted_id [of center_y item_entities]
      sort_key_strictly_sorted_id [of center_y amount_entities]
    by simp
qed

text \<open>Two lines, top to bottom; the amounts read \<open>100\<close> and a lone yen sign.\<close>

theorem ordinal_pairing_vertical_order_witness:
  "preprocess (entities doc_pairs) = ([item_A, item_B], [amount_100, amount_yen], no_header)
   \<and> length [item_A, item_B] = 2 \<and> length [amount_100, amount_yen] = 2 \<and> (1::nat) \<le> 2
   \<and> distinct (map center_y [item_A, item_B]) \<and> distinct (map center_y [amount_100, amount_yen])
   \<and> sorted_wrt (<) (map center_y [item_A, item_B])
   \<and> sorted_wrt (<) (map center_y [amount_100, amount_yen])
   \<and> parse_document_entities doc_pairs =
        (\<lparr>title = None, shop_name = None, date = None,
          line_items = [\<lparr>item = py ''A'', amount = py ''100''\<rparr>, \<lparr>item = py ''B'', amount = []\<rparr>]\<rparr>,
         False, None)"
proof -
  have d: "distinct (map center_y [item_A, item_B])"
          "distinct (map center_y [amount_100, amount_yen])"
    by (simp_all add: item_A_def item_B_def amount_100_def amount_yen_def)
  have s: "sorted_wrt (<) (map center_y [item_A, item_B])"
          "sorted_wrt (<) (map center_y [amount_100, amount_yen])"
    by (simp_all add: item_A_def item_B_def amount_100_def amount_yen_def)
  have l: "length [item_A, item_B] = 2" "length [amount_100, amount_yen] = 2" "(1::nat) \<le> 2"
    by simp_all
  from ordinal_pairing_vertical_order [OF preprocess_doc_pairs l d] s
  have "parse_document_entities doc_pairs =
      (no_header\<lparr>line_items :=
         map2 (\<lambda>i a. \<lparr>item = clean_item_text (text' i), amount = sub_non_digits (text' a)\<rparr>)
           [item_A, item_B] [amount_100, amount_yen]\<rparr>, False, None)"
    by simp
  then show ?thesis
    using preprocess_doc_pairs d s by (simp add: no_header_def example_texts)
qed

text \<open>
  Claim C1, as amended.  Given exactly one item fragment and exactly one amount fragment,
  also when the item's x-extent reaches or exceeds the start of the amount's (item
  \<open>x_max\<close> at least amount \<open>x_min\<close>), the counts are equal and the pair is made by ordinal
  pairing, which does not look at x: the single line item carries the cleaned item text
  and the digits of the amount, the review flag is false and there is no warning.
\<close>

theorem single_pair_is_paired_ordinally:
  assumes "preprocess (entities document) = ([i], [a], extracted_data)"
      and "x_max i \<ge> x_min a"
  shows "parse_document_entities document =
           (extracted_data\<lparr>line_items :=
              [\<lparr>item = clean_item_text (text' i), amount = sub_non_digits (text' a)\<rparr>]\<rparr>,
            False, None)"
  using assms(1) by (simp add: parse_strategy_A ordinal_pairing_map2)

theorem single_pair_is_paired_ordinally_witness:
  "preprocess (entities doc_overlap) = ([item_A], [amount_100], no_header)
   \<and> x_max item_A \<ge> x_min amount_100
   \<and> parse_document_entities doc_overlap =
        (no_header\<lparr>line_items :=
           [\<lparr>item = clean_item_text (text' item_A),
             amount = sub_non_digits (text' amount_100)\<rparr>]\<rparr>,
         False, None)"
proof -
  have ov: "x_max item_A \<ge> x_min amount_100" by (simp add: item_A_def amount_100_def)
  from single_pair_is_paired_ordinally [OF preprocess_doc_overlap ov] preprocess_doc_overlap ov
  show ?thesis by blast
qed

text \<open>
  Claim C1 as stated fails: the item spans x from 0.1 to 0.6, the amount starts at 0.5 on
  the same line, and the result keeps the amount \<open>100\<close> with the review flag false.
\<close>

theorem single_pair_keeps_amount_despite_overlap:
  "x_max item_A \<ge> x_min amount_100
   \<and> preprocess (entities doc_overlap) = ([item_A], [amount_100], no_header)
   \<and> parse_document_entities doc_overlap
       = (\<lparr>title = None, shop_name = None, date = None,
           line_items = [\<lparr>item = py ''A'', amount = py ''100''\<rparr>]\<rparr>, False, None)"
proof -
  have "x_max item_A \<ge> x_min amount_100" by (simp add: item_A_def amount_100_def)
  moreover have "parse_document_entities doc_overlap
       = (\<lparr>title = None, shop_name = None, date = None,
           line_items = [\<lparr>item = py ''A'', amount = py ''100''\<rparr>]\<rparr>, False, None)"
    by (simp add: parse_strategy_A [OF preprocess_doc_overlap] ordinal_pairing_map2
        example_texts no_header_def)
  ultimately show ?thesis using preprocess_doc_overlap by simp
qed

subsection \<open>Row grouping\<close>

text \<open>
  Claim C4.  When the item and amount counts differ, take any row of the grouping that
  holds at least one item and one amount fragment, whose item text (merged and cleaned)
  is not empty, and in which the rightmost item's \<open>x_max\<close> is not left of the leftmost
  amount's \<open>x_min\<close>.  Then the row's amount text is discarded, the row adds the line item
  made of the item text and the amount \<open>0\<close>, that line item is in the result, and the
  review flag of the result is true.
\<close>

theorem overlapping_row_drops_amount:
  assumes "preprocess (entities document) = (item_entities, amount_entities, extracted_data)"
      and "\<not> (item_entities \<noteq> [] \<and> length item_entities = length amount_entities)"
      and "row \<in> set (group_entities_by_row (item_entities @ amount_entities)
                        (calculate_dynamic_tolerance (item_entities @ amount_entities)))"
      and "row_items = sort_key center_x (filter (\<lambda>e. type' e = py ''item'') row)"
      and "row_amounts = sort_key center_x (filter (\<lambda>e. type' e = py ''amount'') row)"
      and "row_items \<noteq> []" and "row_amounts \<noteq> []"
      and "\<not> x_max (last row_items) < x_min (hd row_amounts)"
      and "final_item_text = clean_item_text (join (py '' '') (map text' row_items))"
      and "final_item_text \<noteq> []"
  shows "row_texts row = (final_item_text, [], True)
         \<and> process_row (lines, flag) row
             = (lines @ [\<lparr>item = final_item_text, amount = py ''0''\<rparr>], True)
         \<and> \<lparr>item = final_item_text, amount = py ''0''\<rparr>
             \<in> set (line_items (fst (parse_document_entities document)))
         \<and> fst (snd (parse_document_entities document))"
proof -
  have rt: "row_texts row = (final_item_text, [], True)"
    using assms(4-9) by (simp add: row_texts_def Let_def)
  show ?thesis
    using rt process_row_item_only [OF rt assms(10)]
      strategy_B_item_only [OF assms(1-3) rt assms(10)]
    by simp
qed

text \<open>Two items and one amount; on the first line the item reaches into the amount.\<close>

theorem overlapping_row_drops_amount_witness:
  "preprocess (entities doc_mismatch) = ([item_A, item_B], [amount_100], no_header)
   \<and> \<not> ([item_A, item_B] \<noteq> [] \<and> length [item_A, item_B] = length [amount_100])
   \<and> [item_A, amount_100] \<in> set (group_entities_by_row ([item_A, item_B] @ [amount_100])
                        (calculate_dynamic_tolerance ([item_A, item_B] @ [amount_100])))
   \<and> \<not> x_max (last [item_A]) < x_min (hd [amount_100])
   \<and> py ''A'' \<noteq> []
   \<and> row_texts [item_A, amount_100] = (py ''A'', [], True)
   \<and> process_row ([], False) [item_A, amount_100]
       = ([] @ [\<lparr>item = py ''A'', amount = py ''0''\<rparr>], True)
   \<and> \<lparr>item = py ''A'', amount = py ''0''\<rparr>
       \<in> set (line_items (fst (parse_document_entities doc_mismatch)))
   \<and> fst (snd (parse_document_entities doc_mismatch))"
proof -
  have B: "\<not> ([item_A, item_B] \<noteq> [] \<and> length [item_A, item_B] = length [amount_100])"
    by simp
  have row: "[item_A, amount_100] \<in> set (group_entities_by_row ([item_A, item_B] @ [amount_100])
                        (calculate_dynamic_tolerance ([item_A, item_B] @ [amount_100])))"
    using rows_doc_mismatch by simp
  have ne: "[item_A] \<noteq> []" "[amount_100] \<noteq> []" by simp_all
  have ov: "\<not> x_max (last [item_A]) < x_min (hd [amount_100])"
    by (simp add: item_A_def amount_100_def)
  have t: "py ''A'' = clean_item_text (join (py '' '') (map text' [item_A]))"
    by (simp add: example_texts)
  have nt: "py ''A'' \<noteq> []" by (simp add: py_def)
  from overlapping_row_drops_amount [OF preprocess_doc_mismatch B row row_A_100(1) [symmetric]
      row_A_100(2) [symmetric] ne ov t nt, of "[]" False]
    preprocess_doc_mismatch B row ov nt
  show ?thesis by blast
qed

subsection \<open>An amount without digits, by strategy\<close>

text \<open>
  Claim C10.  In the ordinal-pairing path (equal, nonzero counts; \<open>document\<close> below), an
  amount fragment whose text has no digit character gives, at its position, a line item
  whose amount is the empty string, and the review flag stays false (no warning either).
  In the row-grouping path (unequal counts; \<open>document'\<close> below), a row with item text and
  an empty amount text gives a line item with the amount \<open>0\<close> and sets the review flag.
\<close>

theorem empty_amount_text_by_strategy:
  "(preprocess (entities document) = (item_entities, amount_entities, extracted_data)
      \<longrightarrow> item_entities \<noteq> [] \<longrightarrow> length item_entities = length amount_entities
      \<longrightarrow> i < length item_entities
      \<longrightarrow> (\<forall>c \<in> set (text' (sort_key center_y amount_entities ! i)). \<not> (48 \<le> c \<and> c \<le> 57))
      \<longrightarrow> line_items (fst (parse_document_entities document)) ! i
            = \<lparr>item = clean_item_text (text' (sort_key center_y item_entities ! i)), amount = []\<rparr>
          \<and> \<not> fst (snd (parse_document_entities document))
          \<and> snd (snd (parse_document_entities document)) = None)
   \<and>
   (preprocess (entities document') = (item_entities', amount_entities', extracted_data')
      \<longrightarrow> \<not> (item_entities' \<noteq> [] \<and> length item_entities' = length amount_entities')
      \<longrightarrow> row \<in> set (group_entities_by_row (item_entities' @ amount_entities')
                        (calculate_dynamic_tolerance (item_entities' @ amount_entities')))
      \<longrightarrow> row_texts row = (final_item_text, [], overlap)
      \<longrightarrow> final_item_text \<noteq> []
      \<longrightarrow> process_row (lines, flag) row
             = (lines @ [\<lparr>item = final_item_text, amount = py ''0''\<rparr>], True)
          \<and> \<lparr>item = final_item_text, amount = py ''0''\<rparr>
             \<in> set (line_items (fst (parse_document_entities document')))
          \<and> fst (snd (parse_document_entities document')))"
proof (intro conjI impI)
  assume pre: "preprocess (entities document) = (item_entities, amount_entities, extracted_data)"
    and ne: "item_entities \<noteq> []" and len: "length item_entities = length amount_entities"
    and i: "i < length item_entities"
    and nd: "\<forall>c \<in> set (text' (sort_key center_y amount_entities ! i)). \<not> (48 \<le> c \<and> c \<le> 57)"
  have e: "sub_non_digits (text' (sort_key center_y amount_entities ! i)) = []"
    using nd by (simp add: sub_non_digits_empty)
  show "line_items (fst (parse_document_entities document)) ! i
            = \<lparr>item = clean_item_text (text' (sort_key center_y item_entities ! i)), amount = []\<rparr>"
    using i e by (simp add: parse_strategy_A [OF pre ne len] ordinal_pairing_nth)
  show "\<not> fst (snd (parse_document_entities document))"
    by (simp add: parse_strategy_A [OF pre ne len])
  show "snd (snd (parse_document_entities document)) = None"
    by (simp add: parse_strategy_A [OF pre ne len])
next
  assume pre: "preprocess (entities document') = (item_entities', amount_entities', extracted_data')"
    and B: "\<not> (item_entities' \<noteq> [] \<and> length item_entities' = length amount_entities')"
    and row: "row \<in> set (group_entities_by_row (item_entities' @ amount_entities')
                        (calculate_dynamic_tolerance (item_entities' @ amount_entities')))"
    and rt: "row_texts row = (final_item_text, [], overlap)"
    and it: "final_item_text \<noteq> []"
  show "process_row (lines, flag) row
             = (lines @ [\<lparr>item = final_item_text, amount = py ''0''\<rparr>], True)"
    by (rule process_row_item_only [OF rt it])
  show "\<lparr>item = final_item_text, amount = py ''0''\<rparr>
             \<in> set (line_items (fst (parse_document_entities document')))"
    using strategy_B_item_only [OF pre B row rt it] by simp
  show "fst (snd (parse_document_entities document'))"
    using strategy_B_item_only [OF pre B row rt it] by simp
qed

text \<open>
  The lone yen sign paired ordinally gives an empty amount and no review; the item alone
  on its row, when the counts differ, gives the amount \<open>0\<close> and a review.
\<close>

theorem empty_amount_text_by_strategy_witness:
  "preprocess (entities doc_pairs) = ([item_A, item_B], [amount_100, amount_yen], no_header)
   \<and> [item_A, item_B] \<noteq> [] \<and> length [item_A, item_B] = length [amount_100, amount_yen]
   \<and> 1 < length [item_A, item_B]
   \<and> sort_key center_y [amount_100, amount_yen] ! 1 = amount_yen
   \<and> sub_non_digits (text' amount_yen) = []
   \<and> line_items (fst (parse_document_entities doc_pairs)) ! 1 = \<lparr>item = py ''B'', amount = []\<rparr>
   \<and> \<not> fst (snd (parse_document_entities doc_pairs))
   \<and> preprocess (entities doc_mismatch) = ([item_A, item_B], [amount_100], no_header)
   \<and> \<not> ([item_A, item_B] \<noteq> [] \<and> length [item_A, item_B] = length [amount_100])
   \<and> [item_B] \<in> set (group_entities_by_row ([item_A, item_B] @ [amount_100])
                        (calculate_dynamic_tolerance ([item_A, item_B] @ [amount_100])))
   \<and> row_texts [item_B] = (py ''B'', [], False)
   \<and> py ''B'' \<noteq> []
   \<and> process_row ([], False) [item_B] = ([\<lparr>item = py ''B'', amount = py ''0''\<rparr>], True)
   \<and> \<lparr>item = py ''B'', amount = py ''0''\<rparr>
       \<in> set (line_items (fst (parse_document_entities doc_mismatch)))
   \<and> fst (snd (parse_document_entities doc_mismatch))"
proof -
  have a1: "[item_A, item_B] \<noteq> []" "length [item_A, item_B] = length [amount_100, amount_yen]"
      "1 < length [item_A, item_B]" by simp_all
  have k: "sort_key center_y [amount_100, amount_yen] ! 1 = amount_yen"
    unfolding example_sorted by simp
  have nd: "\<forall>c \<in> set (text' (sort_key center_y [amount_100, amount_yen] ! 1)).
              \<not> (48 \<le> c \<and> c \<le> 57)"
    unfolding k by (simp add: amount_yen_def)
  have B: "\<not> ([item_A, item_B] \<noteq> [] \<and> length [item_A, item_B] = length [amount_100])"
    by simp
  have row: "[item_B] \<in> set (group_entities_by_row ([item_A, item_B] @ [amount_100])
                        (calculate_dynamic_tolerance ([item_A, item_B] @ [amount_100])))"
    using rows_doc_mismatch by simp
  have rt: "row_texts [item_B] = (py ''B'', [], False)"
    by (simp add: row_texts_def item_B_def clean_item_text_def replace_def py_def)
  have nt: "py ''B'' \<noteq> []" by (simp add: py_def)
  note inst = empty_amount_text_by_strategy
      [of doc_pairs "[item_A, item_B]" "[amount_100, amount_yen]" no_header 1
          doc_mismatch "[item_A, item_B]" "[amount_100]" no_header "[item_B]" "py ''B''" False
          "[]" False]
  from inst preprocess_doc_pairs a1 nd preprocess_doc_mismatch B row rt nt
  have f1: "line_items (fst (parse_document_entities doc_pairs)) ! 1
            = \<lparr>item = clean_item_text (text' (sort_key center_y [item_A, item_B] ! 1)),
               amount = []\<rparr>"
    and f2: "\<not> fst (snd (parse_document_entities doc_pairs))"
    and f3: "process_row ([], False) [item_B]
               = ([] @ [\<lparr>item = py ''B'', amount = py ''0''\<rparr>], True)"
    and f4: "\<lparr>item = py ''B'', amount = py ''0''\<rparr>
               \<in> set (line_items (fst (parse_document_entities doc_mismatch)))"
    and f5: "fst (snd (parse_document_entities doc_mismatch))"
    by blast+
  have g1: "line_items (fst (parse_document_entities doc_pairs)) ! 1
              = \<lparr>item = py ''B'', amount = []\<rparr>"
    using f1 unfolding example_sorted by (simp add: example_texts)
  have g3: "process_row ([], False) [item_B] = ([\<lparr>item = py ''B'', amount = py ''0''\<rparr>], True)"
    using f3 by simp
  show ?thesis
    by (intro conjI preprocess_doc_pairs a1 k example_texts(4) g1 f2 preprocess_doc_mismatch
        B row rt nt g3 f4 f5)
qed

end
